theory Spec2Isabelle
  imports Complex_Main "HOL-Library.Word"
begin

section \<open>The document tree\<close>

text \<open>
  Modelled from the spec: the tree accessor. The reader of \<^verbatim>\<open>system_info_reader.cpp\<close>
  works on a tree of \<^verbatim>\<open>nlohmann::json\<close> values; the library itself (\<^verbatim>\<open>json.hpp\<close>) is an
  external collaborator and not among the sources. The tree and the few accessors the
  reader calls are modelled here: whether a named child exists, the conversion of a node
  to a type, which throws on a node of the wrong shape, and iteration; where the
  contract leaves a detail open the library's documented behaviour is followed. A value
  is one of the library's kinds: null, boolean, signed integer, unsigned integer,
  floating point (a double is a rational), string, array, or object. An object is a
  \<^verbatim>\<open>std::map\<close>; it is kept as an association list in iteration order, looked up with
  \<open>map_of\<close>.
\<close>

datatype json =
    JNull
  | JBool bool
  | JInt int
  | JUInt nat
  | JFloat rat
  | JString string
  | JArray "json list"
  | JObject "(string \<times> json) list"

text \<open>The two exceptions of the library the reader can meet after parsing.\<close>

datatype json_exception = type_error | invalid_iterator

text \<open>
  The result of an expression: a value, a thrown exception, or behaviour the C++
  standard leaves undefined (nothing is claimed about the program after that).
\<close>

datatype 'a res = Val 'a | Throw json_exception | UB

text \<open>
  The result of a \<^verbatim>\<open>void\<close> member function that fills a structure passed by reference:
  it returns normally with the structure as it left it, or an exception leaves the
  function with the structure as far as it had been written, or the behaviour is undefined.
\<close>

datatype 's outcome = Normal 's | Raised json_exception 's | Undefined

fun is_array :: "json \<Rightarrow> bool" where
  "is_array (JArray xs) = True"
| "is_array _ = False"

fun is_object :: "json \<Rightarrow> bool" where
  "is_object (JObject ms) = True"
| "is_object _ = False"

fun is_number_unsigned :: "json \<Rightarrow> bool" where
  "is_number_unsigned (JUInt n) = True"
| "is_number_unsigned _ = False"

text \<open>
  \<^verbatim>\<open>parent.find(name)\<close> and \<^verbatim>\<open>parent.contains(name)\<close> find a member only in an object;
  \<^verbatim>\<open>parent[name]\<close> is that member. The reader indexes a node only after one of the two
  has answered yes, so the pair is one lookup.
\<close>

fun child :: "json \<Rightarrow> string \<Rightarrow> json option" where
  "child (JObject ms) name = map_of ms name"
| "child _ name = None"

definition DoesNodeExist :: "json \<Rightarrow> string \<Rightarrow> bool" where
  "DoesNodeExist parent name = (child parent name \<noteq> None)"

text \<open>
  Conversions \<^verbatim>\<open>json -> T\<close> (the implicit conversion of \<^verbatim>\<open>return parent[name];\<close>).
  A number converts by \<^verbatim>\<open>static_cast\<close>: integers wrap modulo the width, a double is
  truncated towards zero and is undefined when the truncated value does not fit.
  A 32-bit target also accepts a boolean; a 64-bit target is the library's own
  unsigned type and accepts numbers only. Anything else throws \<^verbatim>\<open>type_error\<close>.
\<close>

definition truncate_rat :: "rat \<Rightarrow> int" where
  "truncate_rat q = (if 0 \<le> q then \<lfloor>q\<rfloor> else \<lceil>q\<rceil>)"

fun get_uint32 :: "json \<Rightarrow> 32 word res" where
  "get_uint32 (JUInt n) = Val (of_nat n)"
| "get_uint32 (JInt i) = Val (of_int i)"
| "get_uint32 (JFloat q) =
     (if 0 \<le> truncate_rat q \<and> truncate_rat q < 2 ^ 32 then Val (of_int (truncate_rat q)) else UB)"
| "get_uint32 (JBool b) = Val (if b then 1 else 0)"
| "get_uint32 _ = Throw type_error"

fun get_uint64 :: "json \<Rightarrow> 64 word res" where
  "get_uint64 (JUInt n) = Val (of_nat n)"
| "get_uint64 (JInt i) = Val (of_int i)"
| "get_uint64 (JFloat q) =
     (if 0 \<le> truncate_rat q \<and> truncate_rat q < 2 ^ 64 then Val (of_int (truncate_rat q)) else UB)"
| "get_uint64 _ = Throw type_error"

fun get_bool :: "json \<Rightarrow> bool res" where
  "get_bool (JBool b) = Val b"
| "get_bool _ = Throw type_error"

fun get_string :: "json \<Rightarrow> string res" where
  "get_string (JString s) = Val s"
| "get_string _ = Throw type_error"

text \<open>A value converted once more on assignment to a field of another width.\<close>

fun map_res :: "('a \<Rightarrow> 'b) \<Rightarrow> 'a res \<Rightarrow> 'b res" where
  "map_res f (Val v) = Val (f v)"
| "map_res f (Throw e) = Throw e"
| "map_res f UB = UB"

text \<open>\<^verbatim>\<open>Get<T>(parent, name, fallback)\<close>: the member converted to \<open>T\<close>, or the fallback.\<close>

definition Get :: "(json \<Rightarrow> 'a res) \<Rightarrow> json \<Rightarrow> string \<Rightarrow> 'a \<Rightarrow> 'a res" where
  "Get conv parent name fallback =
     (case child parent name of Some v \<Rightarrow> conv v | None \<Rightarrow> Val fallback)"

text \<open>
  \<^verbatim>\<open>for (iter = node.begin(); iter != node.end(); ++iter)\<close>: an object yields its members
  with their keys, an array its elements, null nothing, and any other value yields
  itself once. \<^verbatim>\<open>iter.key()\<close> exists only on an object's iterator.
\<close>

fun items :: "json \<Rightarrow> (string option \<times> json) list" where
  "items (JObject ms) = map (\<lambda>(k, v). (Some k, v)) ms"
| "items (JArray xs) = map (\<lambda>v. (None, v)) xs"
| "items JNull = []"
| "items v = [(None, v)]"

definition elements :: "json \<Rightarrow> json list" where
  "elements node = map snd (items node)"

section \<open>Statements\<close>

text \<open>
  \<open>assign\<close> is \<^verbatim>\<open>field = expression;\<close>: the right-hand side is evaluated first, so
  a throwing expression leaves the field as it was.
\<close>

definition assign :: "('v \<Rightarrow> 's \<Rightarrow> 's) \<Rightarrow> 'v res \<Rightarrow> 's \<Rightarrow> 's outcome" where
  "assign upd r s = (case r of Val v \<Rightarrow> Normal (upd v s) | Throw e \<Rightarrow> Raised e s | UB \<Rightarrow> Undefined)"

text \<open>A sequence of statements; an exception or undefined behaviour ends it.\<close>

fun run_steps :: "('s \<Rightarrow> 's outcome) list \<Rightarrow> 's \<Rightarrow> 's outcome" where
  "run_steps [] s = Normal s"
| "run_steps (st # sts) s =
     (case st s of
        Normal s' \<Rightarrow> run_steps sts s'
      | Raised e s' \<Rightarrow> Raised e s'
      | Undefined \<Rightarrow> Undefined)"

text \<open>
  A call that fills a member of the structure, passed by reference: however the call
  ends, the member is as the call left it.
\<close>

fun map_outcome :: "('m \<Rightarrow> 's) \<Rightarrow> 'm outcome \<Rightarrow> 's outcome" where
  "map_outcome f (Normal m) = Normal (f m)"
| "map_outcome f (Raised e m) = Raised e (f m)"
| "map_outcome f Undefined = Undefined"

definition in_member :: "('s \<Rightarrow> 'm) \<Rightarrow> ('m \<Rightarrow> 's \<Rightarrow> 's) \<Rightarrow> ('m \<Rightarrow> 'm outcome) \<Rightarrow> 's \<Rightarrow> 's outcome" where
  "in_member sel upd f s = map_outcome (\<lambda>m. upd m s) (f (sel s))"

text \<open>\<^verbatim>\<open>if (DoesNodeExist(parent, name)) { ... parent[name] ... }\<close>\<close>

definition if_node :: "json \<Rightarrow> string \<Rightarrow> (json \<Rightarrow> 's \<Rightarrow> 's outcome) \<Rightarrow> 's \<Rightarrow> 's outcome" where
  "if_node parent name body s =
     (case child parent name of Some v \<Rightarrow> body v s | None \<Rightarrow> Normal s)"

text \<open>
  A loop that builds one local element per item and \<^verbatim>\<open>push_back\<close>s it: an exception
  while an element is built leaves the vector with the elements pushed so far.
\<close>

fun push_each :: "('i \<Rightarrow> 'a outcome) \<Rightarrow> 'i list \<Rightarrow> 'a list \<Rightarrow> 'a list outcome" where
  "push_each build [] vec = Normal vec"
| "push_each build (item # rest) vec =
     (case build item of
        Normal x \<Rightarrow> push_each build rest (vec @ [x])
      | Raised e x \<Rightarrow> Raised e vec
      | Undefined \<Rightarrow> Undefined)"

section \<open>C library functions\<close>

definition isspace :: "char \<Rightarrow> bool" where
  "isspace c = (c \<in> set [CHR '' '', CHR 0x09, CHR 0x0A, CHR 0x0B, CHR 0x0C, CHR 0x0D])"

definition isdigit :: "char \<Rightarrow> bool" where
  "isdigit c = (c \<in> set ''0123456789'')"

definition isxdigit :: "char \<Rightarrow> bool" where
  "isxdigit c = (c \<in> set ''0123456789abcdefABCDEF'')"

definition digit_value :: "char \<Rightarrow> int" where
  "digit_value c =
     (if c \<in> set ''0123456789'' then of_char c - 48
      else if c \<in> set ''abcdef'' then of_char c - 87
      else of_char c - 55)"

definition number_value :: "int \<Rightarrow> string \<Rightarrow> int" where
  "number_value base ds = foldl (\<lambda>acc c. acc * base + digit_value c) 0 ds"

definition skip_sign :: "string \<Rightarrow> string" where
  "skip_sign s = (case s of [] \<Rightarrow> [] | c # r \<Rightarrow> if c = CHR ''-'' \<or> c = CHR ''+'' then r else s)"

definition is_negative :: "string \<Rightarrow> bool" where
  "is_negative s = (case s of [] \<Rightarrow> False | c # r \<Rightarrow> c = CHR ''-'')"

text \<open>
  \<^verbatim>\<open>atoi\<close>: leading white space, an optional sign, then decimal digits up to the first
  other character (also the terminating NUL of \<^verbatim>\<open>c_str()\<close>). A value that does not fit
  an \<^verbatim>\<open>int\<close> is undefined behaviour: \<open>None\<close>.
\<close>

definition atoi :: "string \<Rightarrow> int option" where
  "atoi s =
     (let s1 = dropWhile isspace s;
          v = number_value 10 (takeWhile isdigit (skip_sign s1));
          r = (if is_negative s1 then - v else v)
      in if - (2 ^ 31) \<le> r \<and> r < 2 ^ 31 then Some r else None)"

text \<open>
  \<^verbatim>\<open>strtol(s, nullptr, 16)\<close>: leading white space, an optional sign, an optional
  \<^verbatim>\<open>0x\<close> when a hexadecimal digit follows it, then hexadecimal digits up to the first
  other character; 0 when there is no digit. The result is clamped to a 64-bit
  \<^verbatim>\<open>long\<close>.
\<close>

definition skip_0x :: "string \<Rightarrow> string" where
  "skip_0x s =
     (case s of
        a # b # c # r \<Rightarrow>
          if a = CHR ''0'' \<and> (b = CHR ''x'' \<or> b = CHR ''X'') \<and> isxdigit c then c # r else s
      | _ \<Rightarrow> s)"

definition strtol16 :: "string \<Rightarrow> int" where
  "strtol16 s =
     (let s1 = dropWhile isspace s;
          v = number_value 16 (takeWhile isxdigit (skip_0x (skip_sign s1)));
          r = (if is_negative s1 then - v else v)
      in max (- (2 ^ 63)) (min (2 ^ 63 - 1) r))"

section \<open>std::string members\<close>

definition substr :: "string \<Rightarrow> nat \<Rightarrow> nat \<Rightarrow> string" where
  "substr s pos n = take n (drop pos s)"

text \<open>\<open>None\<close> is \<^verbatim>\<open>std::string::npos\<close>.\<close>

definition find_first_of :: "string \<Rightarrow> char \<Rightarrow> nat option" where
  "find_first_of s c =
     (if c \<in> set s then Some (length (takeWhile (\<lambda>x. x \<noteq> c) s)) else None)"

definition find_first_not_of :: "string \<Rightarrow> string \<Rightarrow> nat \<Rightarrow> nat option" where
  "find_first_not_of s chars pos =
     (let r = dropWhile (\<lambda>x. x \<in> set chars) (drop pos s)
      in if r = [] then None else Some (length s - length r))"

section \<open>The output structures\<close>

text \<open>
  The structures of \<^verbatim>\<open>system_info_reader.h\<close>. A field \<open>f\<close> of a structure is named
  with the structure's prefix (\<open>ver_\<close>, \<open>drv_\<close>, \<open>dd_\<close>, \<open>osmem_\<close>, \<open>etw_\<close>, \<open>cfg_\<close>,
  \<open>os_\<close>, \<open>cpu_\<close>, \<open>pci_\<close>, \<open>clk_\<close>, \<open>id_\<close>, \<open>asic_\<close>, \<open>heap_\<close>, \<open>xr_\<close>, \<open>mem_\<close>,
  \<open>sw_\<close>, \<open>gpu_\<close>, \<open>proc_\<close>, \<open>si_\<close>), since several structures share field names and
  some (\<open>min\<close>, \<open>max\<close>, \<open>size\<close>, \<open>id\<close>) are constants of HOL. \<^verbatim>\<open>uint32_t\<close> is \<open>32 word\<close>,
  \<^verbatim>\<open>uint64_t\<close> is \<open>64 word\<close>, \<^verbatim>\<open>uint8_t luid[8]\<close> is a list of eight \<open>8 word\<close>.
\<close>

record Version =
  ver_major :: "32 word"
  ver_minor :: "32 word"
  ver_patch :: "32 word"
  ver_build :: "32 word"

record DevDriverInfo =
  dd_major_version :: "32 word"
  dd_tag :: string

record OsMemoryInfo =
  osmem_physical :: "64 word"
  osmem_swap :: "64 word"
  osmem_type :: string

record EtwSupportInfo =
  etw_is_supported :: bool
  etw_has_permission :: bool
  etw_status_code :: "32 word"
  etw_needs_rgp_registry_or_usergroup :: bool

record ConfigInfo =
  cfg_power_dpm_writable :: bool
  cfg_drm_major_version :: "32 word"
  cfg_drm_minor_version :: "32 word"
  cfg_etw_support_info :: EtwSupportInfo

record OsInfo =
  os_name :: string
  os_desc :: string
  os_hostname :: string
  os_memory :: OsMemoryInfo
  os_config :: ConfigInfo

record CpuInfo =
  cpu_name :: string
  cpu_cpu_id :: string
  cpu_device_id :: string
  cpu_architecture :: string
  cpu_vendor_id :: string
  cpu_virtualization :: string
  cpu_num_physical_cores :: "32 word"
  cpu_num_logical_cores :: "32 word"
  cpu_max_clock_speed :: "32 word"
  cpu_timestamp_clock_frequency :: "64 word"

text \<open>
  \<^verbatim>\<open>ProcessGpuPciNode\<close> writes a member \<^verbatim>\<open>id\<close> that the header at hand does not
  declare; it is kept as a 32-bit field, written and never read.
\<close>

record PciInfo =
  pci_id :: "32 word"
  pci_bus :: "32 word"
  pci_device :: "32 word"
  pci_function :: "32 word"

record ClockInfo =
  clk_min :: "64 word"
  clk_max :: "64 word"

record IdInfo =
  id_gfx_engine :: "32 word"
  id_family :: "32 word"
  id_e_rev :: "32 word"
  id_revision :: "32 word"
  id_device :: "32 word"
  id_subsystem :: "32 word"
  id_vendor :: "32 word"
  id_luid :: "8 word list"

record AsicInfo =
  asic_gpu_index :: "32 word"
  asic_gpu_counter_freq :: "64 word"
  asic_engine_clock_hz :: ClockInfo
  asic_num_shader_engines :: "32 word"
  asic_num_shader_arrays_per_engine :: "32 word"
  asic_cu_mask :: "32 word list list"
  asic_num_cus :: "32 word"
  asic_id_info :: IdInfo

record HeapInfo =
  heap_heap_type :: string
  heap_phys_addr :: "64 word"
  heap_size :: "64 word"

record ExcludedRangeInfo =
  xr_base :: "64 word"
  xr_size :: "64 word"

record MemoryInfo =
  mem_type :: string
  mem_mem_ops_per_clock :: "32 word"
  mem_bus_bit_width :: "32 word"
  mem_bandwidth :: "64 word"
  mem_mem_clock_hz :: ClockInfo
  mem_heaps :: "HeapInfo list"
  mem_excluded_va_ranges :: "ExcludedRangeInfo list"

record SoftwareVersion =
  sw_major :: "32 word"
  sw_minor :: "32 word"
  sw_misc :: "32 word"

record GpuInfo =
  gpu_name :: string
  gpu_pci :: PciInfo
  gpu_asic :: AsicInfo
  gpu_memory :: MemoryInfo
  gpu_big_sw :: SoftwareVersion

record Process =
  proc_name :: string
  proc_path :: string
  proc_id :: "32 word"

record DriverInfo =
  drv_packaging_version_major :: "32 word"
  drv_packaging_version_minor :: "32 word"
  drv_name :: string
  drv_description :: string
  drv_packaging_version :: string
  drv_software_version :: string
  drv_is_closed_source :: bool

record SystemInfo =
  si_version :: Version
  si_driver :: DriverInfo
  si_devdriver :: DevDriverInfo
  si_os :: OsInfo
  si_cpus :: "CpuInfo list"
  si_gpus :: "GpuInfo list"
  si_processes :: "Process list"

subsection \<open>Value-initialised structures (\<^verbatim>\<open>T x = {}\<close>): zero, false, empty\<close>

definition zero_Version :: Version where
  "zero_Version = \<lparr>ver_major = 0, ver_minor = 0, ver_patch = 0, ver_build = 0\<rparr>"

definition zero_DevDriverInfo :: DevDriverInfo where
  "zero_DevDriverInfo = \<lparr>dd_major_version = 0, dd_tag = ''''\<rparr>"

definition zero_OsMemoryInfo :: OsMemoryInfo where
  "zero_OsMemoryInfo = \<lparr>osmem_physical = 0, osmem_swap = 0, osmem_type = ''''\<rparr>"

definition zero_EtwSupportInfo :: EtwSupportInfo where
  "zero_EtwSupportInfo =
     \<lparr>etw_is_supported = False, etw_has_permission = False, etw_status_code = 0,
      etw_needs_rgp_registry_or_usergroup = False\<rparr>"

definition zero_ConfigInfo :: ConfigInfo where
  "zero_ConfigInfo =
     \<lparr>cfg_power_dpm_writable = False, cfg_drm_major_version = 0, cfg_drm_minor_version = 0,
      cfg_etw_support_info = zero_EtwSupportInfo\<rparr>"

definition zero_OsInfo :: OsInfo where
  "zero_OsInfo =
     \<lparr>os_name = '''', os_desc = '''', os_hostname = '''', os_memory = zero_OsMemoryInfo,
      os_config = zero_ConfigInfo\<rparr>"

definition zero_CpuInfo :: CpuInfo where
  "zero_CpuInfo =
     \<lparr>cpu_name = '''', cpu_cpu_id = '''', cpu_device_id = '''', cpu_architecture = '''',
      cpu_vendor_id = '''', cpu_virtualization = '''', cpu_num_physical_cores = 0,
      cpu_num_logical_cores = 0, cpu_max_clock_speed = 0, cpu_timestamp_clock_frequency = 0\<rparr>"

definition zero_PciInfo :: PciInfo where
  "zero_PciInfo = \<lparr>pci_id = 0, pci_bus = 0, pci_device = 0, pci_function = 0\<rparr>"

definition zero_ClockInfo :: ClockInfo where
  "zero_ClockInfo = \<lparr>clk_min = 0, clk_max = 0\<rparr>"

definition zero_IdInfo :: IdInfo where
  "zero_IdInfo =
     \<lparr>id_gfx_engine = 0, id_family = 0, id_e_rev = 0, id_revision = 0, id_device = 0,
      id_subsystem = 0, id_vendor = 0, id_luid = replicate 8 0\<rparr>"

definition zero_AsicInfo :: AsicInfo where
  "zero_AsicInfo =
     \<lparr>asic_gpu_index = 0, asic_gpu_counter_freq = 0, asic_engine_clock_hz = zero_ClockInfo,
      asic_num_shader_engines = 0, asic_num_shader_arrays_per_engine = 0, asic_cu_mask = [],
      asic_num_cus = 0, asic_id_info = zero_IdInfo\<rparr>"

definition zero_HeapInfo :: HeapInfo where
  "zero_HeapInfo = \<lparr>heap_heap_type = '''', heap_phys_addr = 0, heap_size = 0\<rparr>"

definition zero_ExcludedRangeInfo :: ExcludedRangeInfo where
  "zero_ExcludedRangeInfo = \<lparr>xr_base = 0, xr_size = 0\<rparr>"

definition zero_MemoryInfo :: MemoryInfo where
  "zero_MemoryInfo =
     \<lparr>mem_type = '''', mem_mem_ops_per_clock = 0, mem_bus_bit_width = 0, mem_bandwidth = 0,
      mem_mem_clock_hz = zero_ClockInfo, mem_heaps = [], mem_excluded_va_ranges = []\<rparr>"

definition zero_SoftwareVersion :: SoftwareVersion where
  "zero_SoftwareVersion = \<lparr>sw_major = 0, sw_minor = 0, sw_misc = 0\<rparr>"

definition zero_GpuInfo :: GpuInfo where
  "zero_GpuInfo =
     \<lparr>gpu_name = '''', gpu_pci = zero_PciInfo, gpu_asic = zero_AsicInfo,
      gpu_memory = zero_MemoryInfo, gpu_big_sw = zero_SoftwareVersion\<rparr>"

definition zero_Process :: Process where
  "zero_Process = \<lparr>proc_name = '''', proc_path = '''', proc_id = 0\<rparr>"

definition zero_DriverInfo :: DriverInfo where
  "zero_DriverInfo =
     \<lparr>drv_packaging_version_major = 0, drv_packaging_version_minor = 0, drv_name = '''',
      drv_description = '''', drv_packaging_version = '''', drv_software_version = '''',
      drv_is_closed_source = False\<rparr>"

definition zero_SystemInfo :: SystemInfo where
  "zero_SystemInfo =
     \<lparr>si_version = zero_Version, si_driver = zero_DriverInfo, si_devdriver = zero_DevDriverInfo,
      si_os = zero_OsInfo, si_cpus = [], si_gpus = [], si_processes = []\<rparr>"

section \<open>SystemInfoParserV1\<close>

text \<open>
  Each member function takes the node and the structure it fills, as in the source, and
  is the list of the source's statements in their order.
\<close>

definition ProcessDevDriverNode :: "json \<Rightarrow> DevDriverInfo \<Rightarrow> DevDriverInfo outcome" where
  "ProcessDevDriverNode dev_driver_root =
     run_steps
       [if_node dev_driver_root ''version'' (\<lambda>version_root.
          assign (\<lambda>v s. s\<lparr>dd_major_version := v\<rparr>) (Get get_uint32 version_root ''major'' 0)),
        assign (\<lambda>v s. s\<lparr>dd_tag := v\<rparr>) (Get get_string dev_driver_root ''tag'' '''')]"

definition ProcessOsMemoryNode :: "json \<Rightarrow> OsMemoryInfo \<Rightarrow> OsMemoryInfo outcome" where
  "ProcessOsMemoryNode memory_root =
     run_steps
       [assign (\<lambda>v s. s\<lparr>osmem_physical := v\<rparr>) (Get get_uint64 memory_root ''physical'' 0),
        assign (\<lambda>v s. s\<lparr>osmem_swap := v\<rparr>) (Get get_uint64 memory_root ''swap'' 0),
        assign (\<lambda>v s. s\<lparr>osmem_type := v\<rparr>) (Get get_string memory_root ''name'' '''')]"

text \<open>
  The status code is read as \<^verbatim>\<open>unsigned long\<close> (64 bits, the library's own unsigned
  type, on an LP64 platform) and narrowed to the 32-bit field.
\<close>

definition ProcessEtwNode :: "json \<Rightarrow> EtwSupportInfo \<Rightarrow> EtwSupportInfo outcome" where
  "ProcessEtwNode etw_root =
     run_steps
       [assign (\<lambda>v s. s\<lparr>etw_is_supported := v\<rparr>) (Get get_bool etw_root ''isSupported'' False),
        assign (\<lambda>v s. s\<lparr>etw_has_permission := v\<rparr>) (Get get_bool etw_root ''hasPermission'' False),
        assign (\<lambda>v s. s\<lparr>etw_status_code := v\<rparr>)
          (map_res ucast (Get get_uint64 etw_root ''statusCode'' 0)),
        assign (\<lambda>v s. s\<lparr>etw_needs_rgp_registry_or_usergroup := v\<rparr>)
          (Get get_bool etw_root ''needsRegistryOrUserGroup'' False)]"

definition ProcessOsNode :: "json \<Rightarrow> OsInfo \<Rightarrow> OsInfo outcome" where
  "ProcessOsNode os_root =
     run_steps
       [assign (\<lambda>v s. s\<lparr>os_name := v\<rparr>) (Get get_string os_root ''name'' ''''),
        assign (\<lambda>v s. s\<lparr>os_desc := v\<rparr>) (Get get_string os_root ''description'' ''''),
        assign (\<lambda>v s. s\<lparr>os_hostname := v\<rparr>) (Get get_string os_root ''hostname'' ''''),
        if_node os_root ''memory'' (\<lambda>memory_root.
          in_member os_memory (\<lambda>m s. s\<lparr>os_memory := m\<rparr>) (ProcessOsMemoryNode memory_root)),
        if_node os_root ''config'' (\<lambda>config_root.
          in_member os_config (\<lambda>m s. s\<lparr>os_config := m\<rparr>)
            (run_steps
               [if_node config_root ''linux'' (\<lambda>linux_root.
                  run_steps
                    [assign (\<lambda>v s. s\<lparr>cfg_power_dpm_writable := v\<rparr>)
                       (Get get_bool linux_root ''powerDpmWritable'' False),
                     if_node linux_root ''drm'' (\<lambda>drm_root.
                       run_steps
                         [assign (\<lambda>v s. s\<lparr>cfg_drm_major_version := v\<rparr>)
                            (Get get_uint32 drm_root ''major'' 0),
                          assign (\<lambda>v s. s\<lparr>cfg_drm_minor_version := v\<rparr>)
                            (Get get_uint32 drm_root ''minor'' 0)])]),
                if_node config_root ''windows'' (\<lambda>windows_root.
                  if_node windows_root ''etwSupport'' (\<lambda>etw_root.
                    in_member cfg_etw_support_info (\<lambda>m s. s\<lparr>cfg_etw_support_info := m\<rparr>)
                      (ProcessEtwNode etw_root)))]))]"

text \<open>The body of the loop of \<^verbatim>\<open>ProcessCpusNode\<close>: \<^verbatim>\<open>CpuInfo cpu = {}\<close> and its fields.\<close>

definition ProcessCpusNode_cpu :: "json \<Rightarrow> CpuInfo outcome" where
  "ProcessCpusNode_cpu cpu_node =
     run_steps
       [assign (\<lambda>v s. s\<lparr>cpu_name := v\<rparr>) (Get get_string cpu_node ''name'' ''''),
        assign (\<lambda>v s. s\<lparr>cpu_architecture := v\<rparr>) (Get get_string cpu_node ''architecture'' ''''),
        assign (\<lambda>v s. s\<lparr>cpu_cpu_id := v\<rparr>) (Get get_string cpu_node ''cpuId'' ''''),
        assign (\<lambda>v s. s\<lparr>cpu_device_id := v\<rparr>) (Get get_string cpu_node ''deviceId'' ''''),
        assign (\<lambda>v s. s\<lparr>cpu_vendor_id := v\<rparr>) (Get get_string cpu_node ''vendorId'' ''''),
        assign (\<lambda>v s. s\<lparr>cpu_num_logical_cores := v\<rparr>) (Get get_uint32 cpu_node ''numLogicalCores'' 0),
        assign (\<lambda>v s. s\<lparr>cpu_num_physical_cores := v\<rparr>) (Get get_uint32 cpu_node ''numPhysicalCores'' 0),
        if_node cpu_node ''virtualization'' (\<lambda>virtualization_node.
          assign (\<lambda>v s. s\<lparr>cpu_virtualization := v\<rparr>) (Get get_string cpu_node ''virtualization'' '''')),
        if_node cpu_node ''speed'' (\<lambda>cpu_speed_node.
          assign (\<lambda>v s. s\<lparr>cpu_max_clock_speed := v\<rparr>) (Get get_uint32 cpu_speed_node ''max'' 0)),
        assign (\<lambda>v s. s\<lparr>cpu_timestamp_clock_frequency := v\<rparr>)
          (Get get_uint64 cpu_node ''cpuTimeClockFreq'' 0)]
       zero_CpuInfo"

definition ProcessCpusNode :: "json \<Rightarrow> CpuInfo list \<Rightarrow> CpuInfo list outcome" where
  "ProcessCpusNode cpus_root cpus = push_each ProcessCpusNode_cpu (elements cpus_root) cpus"

definition ProcessGpuPciNode :: "json \<Rightarrow> PciInfo \<Rightarrow> PciInfo outcome" where
  "ProcessGpuPciNode pci_root =
     run_steps
       [assign (\<lambda>v s. s\<lparr>pci_id := v\<rparr>) (Val 0),
        assign (\<lambda>v s. s\<lparr>pci_bus := v\<rparr>) (Get get_uint32 pci_root ''bus'' 0),
        assign (\<lambda>v s. s\<lparr>pci_device := v\<rparr>) (Get get_uint32 pci_root ''device'' 0),
        assign (\<lambda>v s. s\<lparr>pci_function := v\<rparr>) (Get get_uint32 pci_root ''function'' 0)]"

subsection \<open>The CU mask\<close>

text \<open>
  The inner loop of \<^verbatim>\<open>ProcessCuMaskNode\<close> pushes onto the row that \<^verbatim>\<open>emplace_back()\<close> has
  just added to the matrix. It answers whether the function returned from inside the
  loop, and the matrix: \<^verbatim>\<open>clear()\<close> empties all of it.
\<close>

definition push_back_last :: "'a list list \<Rightarrow> 'a \<Rightarrow> 'a list list" where
  "push_back_last m x = butlast m @ [last m @ [x]]"

fun ProcessCuMaskNode_row :: "json list \<Rightarrow> 32 word list list \<Rightarrow> bool \<times> 32 word list list" where
  "ProcessCuMaskNode_row [] cu_mask = (False, cu_mask)"
| "ProcessCuMaskNode_row (shader_array_mask_item # rest) cu_mask =
     (case shader_array_mask_item of
        JUInt n \<Rightarrow> ProcessCuMaskNode_row rest (push_back_last cu_mask (of_nat n))
      | _ \<Rightarrow> (True, []))"

fun ProcessCuMaskNode_rows :: "json list \<Rightarrow> 32 word list list \<Rightarrow> 32 word list list" where
  "ProcessCuMaskNode_rows [] cu_mask = cu_mask"
| "ProcessCuMaskNode_rows (shader_array_list # rest) cu_mask =
     (if \<not> is_array shader_array_list then []
      else case ProcessCuMaskNode_row (elements shader_array_list) (cu_mask @ [[]]) of
             (True, cu_mask') \<Rightarrow> cu_mask'
           | (False, cu_mask') \<Rightarrow> ProcessCuMaskNode_rows rest cu_mask')"

definition ProcessCuMaskNode :: "json \<Rightarrow> AsicInfo \<Rightarrow> AsicInfo outcome" where
  "ProcessCuMaskNode cu_mask_root asicInfo =
     (if \<not> is_array cu_mask_root then Normal asicInfo
      else Normal (asicInfo\<lparr>asic_cu_mask :=
             ProcessCuMaskNode_rows (elements cu_mask_root) (asic_cu_mask asicInfo)\<rparr>))"

definition ProcessClockInfoNode :: "json \<Rightarrow> ClockInfo \<Rightarrow> ClockInfo outcome" where
  "ProcessClockInfoNode clock_hz_root =
     run_steps
       [assign (\<lambda>v s. s\<lparr>clk_min := v\<rparr>) (Get get_uint64 clock_hz_root ''min'' 0),
        assign (\<lambda>v s. s\<lparr>clk_max := v\<rparr>) (Get get_uint64 clock_hz_root ''max'' 0)]"

subsection \<open>The ASIC ids and the LUID\<close>

text \<open>
  The loop \<^verbatim>\<open>for (size_t i = 0; i < luid_str.length(); i += 2)\<close> over the eight bytes of
  \<^verbatim>\<open>luid\<close>. A write at an index that is not below 8 is outside the array: \<open>None\<close>.
\<close>

function ProcessAsicIdInfoNode_luid :: "string \<Rightarrow> nat \<Rightarrow> 8 word list \<Rightarrow> 8 word list option" where
  "ProcessAsicIdInfoNode_luid luid_str i luid =
     (if i < length luid_str then
        (if i div 2 < 8 then
           ProcessAsicIdInfoNode_luid luid_str (i + 2)
             (luid[i div 2 := of_int (strtol16 (substr luid_str i 2))])
         else None)
      else Some luid)"
  by pat_completeness auto
termination
  by (relation "measure (\<lambda>(luid_str, i, luid). length luid_str - i)") auto

declare ProcessAsicIdInfoNode_luid.simps [simp del]

text \<open>
  The last statements of \<^verbatim>\<open>ProcessAsicIdInfoNode\<close>: the string is read (this may throw,
  before anything is written), \<^verbatim>\<open>memset\<close> zeroes the eight bytes, and the loop fills them.
\<close>

definition ProcessAsicIdInfoNode_luid_field :: "json \<Rightarrow> IdInfo \<Rightarrow> IdInfo outcome" where
  "ProcessAsicIdInfoNode_luid_field asic_id_info_root id_info =
     (case Get get_string asic_id_info_root ''luid'' '''' of
        Val luid_str \<Rightarrow>
          (case ProcessAsicIdInfoNode_luid luid_str 0 (replicate 8 0) of
             Some luid \<Rightarrow> Normal (id_info\<lparr>id_luid := luid\<rparr>)
           | None \<Rightarrow> Undefined)
      | Throw e \<Rightarrow> Raised e id_info
      | UB \<Rightarrow> Undefined)"

definition ProcessAsicIdInfoNode :: "json \<Rightarrow> IdInfo \<Rightarrow> IdInfo outcome" where
  "ProcessAsicIdInfoNode asic_id_info_root =
     run_steps
       [assign (\<lambda>v s. s\<lparr>id_gfx_engine := v\<rparr>) (Get get_uint32 asic_id_info_root ''gfxEngine'' 0),
        assign (\<lambda>v s. s\<lparr>id_family := v\<rparr>) (Get get_uint32 asic_id_info_root ''family'' 0),
        assign (\<lambda>v s. s\<lparr>id_e_rev := v\<rparr>) (Get get_uint32 asic_id_info_root ''eRev'' 0),
        assign (\<lambda>v s. s\<lparr>id_revision := v\<rparr>) (Get get_uint32 asic_id_info_root ''revision'' 0),
        assign (\<lambda>v s. s\<lparr>id_device := v\<rparr>) (Get get_uint32 asic_id_info_root ''device'' 0),
        assign (\<lambda>v s. s\<lparr>id_subsystem := v\<rparr>) (Get get_uint32 asic_id_info_root ''subsystem'' 0),
        assign (\<lambda>v s. s\<lparr>id_vendor := v\<rparr>) (Get get_uint32 asic_id_info_root ''vendor'' 0),
        ProcessAsicIdInfoNode_luid_field asic_id_info_root]"

definition ProcessGpuAsicNode :: "json \<Rightarrow> AsicInfo \<Rightarrow> AsicInfo outcome" where
  "ProcessGpuAsicNode asic_root =
     run_steps
       [assign (\<lambda>v s. s\<lparr>asic_gpu_index := v\<rparr>) (Get get_uint32 asic_root ''gpuIndex'' (- 1)),
        assign (\<lambda>v s. s\<lparr>asic_gpu_counter_freq := v\<rparr>)
          (map_res ucast (Get get_uint32 asic_root ''gpuCounterFreq'' 0)),
        assign (\<lambda>v s. s\<lparr>asic_num_shader_engines := v\<rparr>)
          (Get get_uint32 asic_root ''numShaderEngines'' 0),
        assign (\<lambda>v s. s\<lparr>asic_num_shader_arrays_per_engine := v\<rparr>)
          (Get get_uint32 asic_root ''numShaderArraysPerEngine'' 0),
        assign (\<lambda>v s. s\<lparr>asic_num_cus := v\<rparr>) (Get get_uint32 asic_root ''numCus'' 0),
        if_node asic_root ''cuMask'' ProcessCuMaskNode,
        if_node asic_root ''engineClockHz'' (\<lambda>clock_hz_root.
          in_member asic_engine_clock_hz (\<lambda>m s. s\<lparr>asic_engine_clock_hz := m\<rparr>)
            (ProcessClockInfoNode clock_hz_root)),
        if_node asic_root ''ids'' (\<lambda>asic_id_info_root.
          in_member asic_id_info (\<lambda>m s. s\<lparr>asic_id_info := m\<rparr>)
            (ProcessAsicIdInfoNode asic_id_info_root))]"

subsection \<open>GPU memory\<close>

text \<open>
  The body of the loop of \<^verbatim>\<open>ProcessGpuMemoryHeapsNode\<close>; \<^verbatim>\<open>heap_iter.key()\<close> throws on
  an iterator that is not an object's.
\<close>

definition ProcessGpuMemoryHeapsNode_heap :: "string option \<times> json \<Rightarrow> HeapInfo outcome" where
  "ProcessGpuMemoryHeapsNode_heap it =
     (case it of (key, current_heap_node) \<Rightarrow>
        run_steps
          [assign (\<lambda>v s. s\<lparr>heap_heap_type := v\<rparr>)
             (case key of Some k \<Rightarrow> Val k | None \<Rightarrow> Throw invalid_iterator),
           assign (\<lambda>v s. s\<lparr>heap_phys_addr := v\<rparr>)
             (Get get_uint64 current_heap_node ''physicalAddress'' 0),
           assign (\<lambda>v s. s\<lparr>heap_size := v\<rparr>) (Get get_uint64 current_heap_node ''size'' 0)]
          zero_HeapInfo)"

definition ProcessGpuMemoryHeapsNode :: "json \<Rightarrow> HeapInfo list \<Rightarrow> HeapInfo list outcome" where
  "ProcessGpuMemoryHeapsNode heaps_root heaps =
     push_each ProcessGpuMemoryHeapsNode_heap (items heaps_root) heaps"

definition ProcessExcludedVaRanges_range :: "json \<Rightarrow> ExcludedRangeInfo outcome" where
  "ProcessExcludedVaRanges_range excluded_range_root =
     run_steps
       [assign (\<lambda>v s. s\<lparr>xr_base := v\<rparr>) (Get get_uint64 excluded_range_root ''base'' 0),
        assign (\<lambda>v s. s\<lparr>xr_size := v\<rparr>) (Get get_uint64 excluded_range_root ''size'' 0)]
       zero_ExcludedRangeInfo"

definition ProcessExcludedVaRanges ::
    "json \<Rightarrow> ExcludedRangeInfo list \<Rightarrow> ExcludedRangeInfo list outcome" where
  "ProcessExcludedVaRanges excluded_ranges_root excluded_ranges =
     push_each ProcessExcludedVaRanges_range (elements excluded_ranges_root) excluded_ranges"

definition ProcessGpuMemoryNode :: "json \<Rightarrow> MemoryInfo \<Rightarrow> MemoryInfo outcome" where
  "ProcessGpuMemoryNode memory_root =
     run_steps
       [assign (\<lambda>v s. s\<lparr>mem_type := v\<rparr>) (Get get_string memory_root ''type'' ''''),
        assign (\<lambda>v s. s\<lparr>mem_mem_ops_per_clock := v\<rparr>) (Get get_uint32 memory_root ''memOpsPerClock'' 0),
        assign (\<lambda>v s. s\<lparr>mem_bus_bit_width := v\<rparr>) (Get get_uint32 memory_root ''busBitWidth'' 0),
        assign (\<lambda>v s. s\<lparr>mem_bandwidth := v\<rparr>) (Get get_uint64 memory_root ''bandwidthBytesPerSec'' 0),
        if_node memory_root ''memClockHz'' (\<lambda>clock_hz_root.
          in_member mem_mem_clock_hz (\<lambda>m s. s\<lparr>mem_mem_clock_hz := m\<rparr>)
            (ProcessClockInfoNode clock_hz_root)),
        if_node memory_root ''heaps'' (\<lambda>heaps_root.
          in_member mem_heaps (\<lambda>m s. s\<lparr>mem_heaps := m\<rparr>) (ProcessGpuMemoryHeapsNode heaps_root)),
        if_node memory_root ''excludedVaRanges'' (\<lambda>excluded_ranges_root.
          in_member mem_excluded_va_ranges (\<lambda>m s. s\<lparr>mem_excluded_va_ranges := m\<rparr>)
            (ProcessExcludedVaRanges excluded_ranges_root))]"

definition ProcessSoftwareVersionNode :: "json \<Rightarrow> SoftwareVersion \<Rightarrow> SoftwareVersion outcome" where
  "ProcessSoftwareVersionNode sw_version_root =
     run_steps
       [assign (\<lambda>v s. s\<lparr>sw_major := v\<rparr>) (Get get_uint32 sw_version_root ''major'' 0),
        assign (\<lambda>v s. s\<lparr>sw_minor := v\<rparr>) (Get get_uint32 sw_version_root ''minor'' 0),
        assign (\<lambda>v s. s\<lparr>sw_misc := v\<rparr>) (Get get_uint32 sw_version_root ''misc'' 0)]"

subsection \<open>GPUs\<close>

definition ProcessGpusNodes_gpu :: "json \<Rightarrow> GpuInfo outcome" where
  "ProcessGpusNodes_gpu gpu_node =
     run_steps
       [assign (\<lambda>v s. s\<lparr>gpu_name := v\<rparr>) (Get get_string gpu_node ''name'' ''''),
        if_node gpu_node ''pci'' (\<lambda>pci_root.
          in_member gpu_pci (\<lambda>m s. s\<lparr>gpu_pci := m\<rparr>) (ProcessGpuPciNode pci_root)),
        if_node gpu_node ''asic'' (\<lambda>asic_root.
          in_member gpu_asic (\<lambda>m s. s\<lparr>gpu_asic := m\<rparr>) (ProcessGpuAsicNode asic_root)),
        if_node gpu_node ''memory'' (\<lambda>memory_root.
          in_member gpu_memory (\<lambda>m s. s\<lparr>gpu_memory := m\<rparr>) (ProcessGpuMemoryNode memory_root)),
        if_node gpu_node ''bigSw'' (\<lambda>sw_version_root.
          in_member gpu_big_sw (\<lambda>m s. s\<lparr>gpu_big_sw := m\<rparr>)
            (ProcessSoftwareVersionNode sw_version_root))]
       zero_GpuInfo"

definition ProcessGpusNodes :: "json \<Rightarrow> GpuInfo list \<Rightarrow> GpuInfo list outcome" where
  "ProcessGpusNodes gpus_root gpus = push_each ProcessGpusNodes_gpu (elements gpus_root) gpus"

subsection \<open>The driver and its packaging version\<close>

text \<open>
  The block \<^verbatim>\<open>// Parse major and minor\<close> of \<^verbatim>\<open>ProcessDriverNode\<close>, with its two early
  returns. The \<^verbatim>\<open>int\<close> of \<^verbatim>\<open>atoi\<close> converts to the unsigned field modulo \<open>2 ^ 32\<close>.
\<close>

definition ProcessDriverNode_versions :: "DriverInfo \<Rightarrow> DriverInfo outcome" where
  "ProcessDriverNode_versions driver =
     (if drv_packaging_version driver = [] then Normal driver
      else
        case find_first_of (drv_packaging_version driver) CHR ''.'' of
          None \<Rightarrow> Normal driver
        | Some first \<Rightarrow>
            (case atoi (substr (drv_packaging_version driver) 0 first) of
               None \<Rightarrow> Undefined
             | Some major \<Rightarrow>
                 (let driver1 = driver\<lparr>drv_packaging_version_major := of_int major\<rparr>;
                      rest = first + 1
                  in case find_first_not_of (drv_packaging_version driver) ''0123456789'' rest of
                       None \<Rightarrow> Normal driver1
                     | Some next \<Rightarrow>
                         (case atoi (substr (drv_packaging_version driver) rest (next - rest)) of
                            None \<Rightarrow> Undefined
                          | Some minor \<Rightarrow>
                              Normal (driver1\<lparr>drv_packaging_version_minor := of_int minor\<rparr>)))))"

definition ProcessDriverNode :: "json \<Rightarrow> DriverInfo \<Rightarrow> DriverInfo outcome" where
  "ProcessDriverNode driver_node =
     run_steps
       [assign (\<lambda>v s. s\<lparr>drv_name := v\<rparr>) (Get get_string driver_node ''name'' ''''),
        assign (\<lambda>v s. s\<lparr>drv_description := v\<rparr>) (Get get_string driver_node ''description'' ''''),
        assign (\<lambda>v s. s\<lparr>drv_software_version := v\<rparr>)
          (Get get_string driver_node ''softwareVersion'' ''''),
        assign (\<lambda>v s. s\<lparr>drv_packaging_version := v\<rparr>)
          (Get get_string driver_node ''packagingVersion'' ''''),
        assign (\<lambda>v s. s\<lparr>drv_is_closed_source := v\<rparr>)
          (Get get_bool driver_node ''isClosedSource'' False),
        ProcessDriverNode_versions]"

subsection \<open>The top level of version 1\<close>

definition V1_ProcessSystemValueNode :: "json \<Rightarrow> SystemInfo \<Rightarrow> SystemInfo outcome" where
  "V1_ProcessSystemValueNode system_value_node =
     run_steps
       [if_node system_value_node ''devdriver'' (\<lambda>n.
          in_member si_devdriver (\<lambda>m s. s\<lparr>si_devdriver := m\<rparr>) (ProcessDevDriverNode n)),
        if_node system_value_node ''driver'' (\<lambda>n.
          in_member si_driver (\<lambda>m s. s\<lparr>si_driver := m\<rparr>) (ProcessDriverNode n)),
        if_node system_value_node ''os'' (\<lambda>n.
          in_member si_os (\<lambda>m s. s\<lparr>si_os := m\<rparr>) (ProcessOsNode n)),
        if_node system_value_node ''cpus'' (\<lambda>n.
          in_member si_cpus (\<lambda>m s. s\<lparr>si_cpus := m\<rparr>) (ProcessCpusNode n)),
        if_node system_value_node ''gpus'' (\<lambda>n.
          in_member si_gpus (\<lambda>m s. s\<lparr>si_gpus := m\<rparr>) (ProcessGpusNodes n))]"

section \<open>SystemInfoParserV2\<close>

definition ProcessProcessListNode_process :: "json \<Rightarrow> Process outcome" where
  "ProcessProcessListNode_process process_node =
     run_steps
       [assign (\<lambda>v s. s\<lparr>proc_name := v\<rparr>) (Get get_string process_node ''name'' ''''),
        assign (\<lambda>v s. s\<lparr>proc_path := v\<rparr>) (Get get_string process_node ''path'' ''''),
        assign (\<lambda>v s. s\<lparr>proc_id := v\<rparr>) (Get get_uint32 process_node ''processId'' 0)]
       zero_Process"

definition ProcessProcessListNode :: "json \<Rightarrow> Process list \<Rightarrow> Process list outcome" where
  "ProcessProcessListNode process_list_node processes =
     push_each ProcessProcessListNode_process (elements process_list_node) processes"

definition V2_ProcessSystemValueNode :: "json \<Rightarrow> SystemInfo \<Rightarrow> SystemInfo outcome" where
  "V2_ProcessSystemValueNode system_value_node =
     run_steps
       [V1_ProcessSystemValueNode system_value_node,
        if_node system_value_node ''processes'' (\<lambda>n.
          in_member si_processes (\<lambda>m s. s\<lparr>si_processes := m\<rparr>) (ProcessProcessListNode n))]"

section \<open>Choosing the parser and decoding\<close>

datatype parser = SystemInfoParserV1 | SystemInfoParserV2

definition CreateSystemInfoParser :: "32 word \<Rightarrow> parser option" where
  "CreateSystemInfoParser version_number =
     (if version_number = 1 then Some SystemInfoParserV1
      else if version_number = 2 then Some SystemInfoParserV2
      else None)"

text \<open>The virtual call \<^verbatim>\<open>parser->ProcessSystemValueNode(...)\<close>.\<close>

fun ProcessSystemValueNode :: "parser \<Rightarrow> json \<Rightarrow> SystemInfo \<Rightarrow> SystemInfo outcome" where
  "ProcessSystemValueNode SystemInfoParserV1 = V1_ProcessSystemValueNode"
| "ProcessSystemValueNode SystemInfoParserV2 = V2_ProcessSystemValueNode"

text \<open>
  The first statement of \<^verbatim>\<open>ProcessSystemNode\<close>: the version is written into the record
  before a parser is looked for.
\<close>

definition ProcessSystemNode_version :: "json \<Rightarrow> SystemInfo \<Rightarrow> SystemInfo outcome" where
  "ProcessSystemNode_version system_node =
     in_member si_version (\<lambda>m s. s\<lparr>si_version := m\<rparr>)
       (if DoesNodeExist system_node ''version''
           \<and> (case child system_node ''version'' of Some v \<Rightarrow> is_object v | None \<Rightarrow> False)
        then
          (case child system_node ''version'' of
             Some version_node \<Rightarrow>
               run_steps
                 [assign (\<lambda>v s. s\<lparr>ver_major := v\<rparr>) (Get get_uint32 version_node ''major'' 2),
                  assign (\<lambda>v s. s\<lparr>ver_minor := v\<rparr>) (Get get_uint32 version_node ''minor'' 0),
                  assign (\<lambda>v s. s\<lparr>ver_patch := v\<rparr>) (Get get_uint32 version_node ''patch'' 0),
                  assign (\<lambda>v s. s\<lparr>ver_build := v\<rparr>) (Get get_uint32 version_node ''build'' 0)]
           | None \<Rightarrow> Normal)
        else assign (\<lambda>v s. s\<lparr>ver_major := v\<rparr>) (Get get_uint32 system_node ''version'' 1))"

text \<open>
  What a decode leaves behind: the flag it returned and the record, or an exception on
  its way to the caller, or the program ended by \<^verbatim>\<open>abort\<close> after a failed \<^verbatim>\<open>assert\<close> (with
  the record as it stood at that moment), or undefined behaviour.
\<close>

datatype parse_result =
    Returned bool SystemInfo
  | Threw json_exception SystemInfo
  | Aborted SystemInfo
  | UndefinedBehaviour

text \<open>
  \<^verbatim>\<open>ProcessSystemNode\<close>. The macro \<^verbatim>\<open>assert\<close> depends on the build: \<open>ndebug\<close> says that
  \<^verbatim>\<open>NDEBUG\<close> is defined, and then \<^verbatim>\<open>assert(parser != nullptr)\<close> is no statement at all and
  the test \<^verbatim>\<open>if (parser != nullptr)\<close> after it decides; without \<^verbatim>\<open>NDEBUG\<close> a null parser
  fails the assertion, which ends the program before that test is reached.
\<close>

definition ProcessSystemNode :: "bool \<Rightarrow> json \<Rightarrow> SystemInfo \<Rightarrow> parse_result" where
  "ProcessSystemNode ndebug system_node system_info =
     (case ProcessSystemNode_version system_node system_info of
        Raised e s \<Rightarrow> Threw e s
      | Undefined \<Rightarrow> UndefinedBehaviour
      | Normal s \<Rightarrow>
          (case CreateSystemInfoParser (ver_major (si_version s)) of
             None \<Rightarrow> if ndebug then Returned False s else Aborted s
           | Some parser \<Rightarrow>
               (case ProcessSystemValueNode parser system_node s of
                  Normal s' \<Rightarrow> Returned True s'
                | Raised e s' \<Rightarrow> Threw e s'
                | Undefined \<Rightarrow> UndefinedBehaviour)))"

text \<open>
  \<^verbatim>\<open>SystemInfoReader::Parse(const std::string&, SystemInfo&)\<close>. The text parser
  \<^verbatim>\<open>nlohmann::json::parse\<close> is a parameter: \<open>None\<close> where it throws. \<^verbatim>\<open>catch (...)\<close> turns
  every exception into the result \<^verbatim>\<open>false\<close>; the record stays as far as it was written. A
  failed assertion is no exception: \<^verbatim>\<open>abort\<close> is not caught.
\<close>

definition Parse ::
    "bool \<Rightarrow> (string \<Rightarrow> json option) \<Rightarrow> string \<Rightarrow> SystemInfo \<Rightarrow> parse_result" where
  "Parse ndebug parse json system_info =
     (case parse json of
        None \<Rightarrow> Returned False system_info
      | Some structure \<Rightarrow>
          (case (case child structure ''system'' of
                   Some system_node \<Rightarrow> ProcessSystemNode ndebug system_node system_info
                 | None \<Rightarrow> ProcessSystemNode ndebug structure system_info) of
             Returned result s \<Rightarrow> Returned result s
           | Threw e s \<Rightarrow> Returned False s
           | Aborted s \<Rightarrow> Aborted s
           | UndefinedBehaviour \<Rightarrow> UndefinedBehaviour))"

text \<open>
  \<^verbatim>\<open>SystemInfoReader::Parse(const std::string&)\<close>, text to text. \<^verbatim>\<open>dump\<close> is the library's
  serialiser, a parameter as well; where it throws the function falls through to
  \<^verbatim>\<open>return ""\<close>.
\<close>

definition Parse_text ::
    "(string \<Rightarrow> json option) \<Rightarrow> (json \<Rightarrow> json_exception + string) \<Rightarrow> string \<Rightarrow> string" where
  "Parse_text parse dump json =
     (case parse json of
        None \<Rightarrow> ''''
      | Some structure \<Rightarrow>
          (case child structure ''system'' of
             Some system_node \<Rightarrow> (case dump system_node of Inr text \<Rightarrow> text | Inl e \<Rightarrow> '''')
           | None \<Rightarrow> json))"

section \<open>Reading the chunk of a container\<close>

text \<open>
  Modelled from the spec: the container (the RDF chunk file library is not part of the
  sources at hand). A container answers, for a chunk identifier and index, whether the
  chunk is there, its stored version, its size and its bytes. The four queries the
  reader can make are recorded in the order it makes them.
\<close>

record rdfChunk =
  chunk_version :: "32 word"
  chunk_data :: string

type_synonym rdfChunkFile = "string \<times> nat \<Rightarrow> rdfChunk option"

datatype rdf_call = ContainsChunk | GetChunkVersion | GetChunkDataSize | ReadChunkData

definition kSystemInfoChunkIdentifier :: string where
  "kSystemInfoChunkIdentifier = ''SystemInfo''"

definition kSystemInfoChunkVersion :: "32 word" where
  "kSystemInfoChunkVersion = 1"

definition kSystemInfoChunkVersionMax :: "32 word" where
  "kSystemInfoChunkVersionMax = kSystemInfoChunkVersion"

text \<open>A \<^verbatim>\<open>char*\<close> read as a string ends at its first NUL.\<close>

definition c_str :: "string \<Rightarrow> string" where
  "c_str buffer = takeWhile (\<lambda>c. c \<noteq> CHR 0x00) buffer"

text \<open>\<^verbatim>\<open>SystemInfoReader::Parse(rdfChunkFile*, SystemInfo&)\<close>: the result and the queries made.\<close>

definition Parse_rdf ::
    "bool \<Rightarrow> (string \<Rightarrow> json option) \<Rightarrow> rdfChunkFile \<Rightarrow> SystemInfo
      \<Rightarrow> parse_result \<times> rdf_call list" where
  "Parse_rdf ndebug parse file system_info =
     (case file (kSystemInfoChunkIdentifier, 0) of
        None \<Rightarrow> (Returned False system_info, [ContainsChunk])
      | Some chunk \<Rightarrow>
          if chunk_version chunk > kSystemInfoChunkVersionMax
          then (Returned False system_info, [ContainsChunk, GetChunkVersion])
          else
            (let buffer = chunk_data chunk @ [CHR 0x00]
             in (Parse ndebug parse (c_str buffer) system_info,
                 [ContainsChunk, GetChunkVersion, GetChunkDataSize, ReadChunkData])))"

section \<open>Notions used to state and prove the properties\<close>

text \<open>A property of the structure holds however the call ended.\<close>

fun holds_after :: "('s \<Rightarrow> bool) \<Rightarrow> 's outcome \<Rightarrow> bool" where
  "holds_after P (Normal s) = P s"
| "holds_after P (Raised e s) = P s"
| "holds_after P Undefined = True"

definition preserves :: "('s \<Rightarrow> bool) \<Rightarrow> ('s \<Rightarrow> 's outcome) \<Rightarrow> bool" where
  "preserves P st = (\<forall>s. P s \<longrightarrow> holds_after P (st s))"

text \<open>
  Two runs of a statement, from structures related by \<open>R\<close>, end the same way: both
  normally, in structures related by \<open>N\<close>, or both by the same exception, in structures
  related by \<open>E\<close>, or both undefined.
\<close>

fun rel_outcome :: "('s \<Rightarrow> 's \<Rightarrow> bool) \<Rightarrow> ('s \<Rightarrow> 's \<Rightarrow> bool) \<Rightarrow> 's outcome \<Rightarrow> 's outcome \<Rightarrow> bool" where
  "rel_outcome N E (Normal s) (Normal t) = N s t"
| "rel_outcome N E (Raised e s) (Raised e' t) = (e = e' \<and> E s t)"
| "rel_outcome N E Undefined Undefined = True"
| "rel_outcome N E _ _ = False"

definition related ::
    "('s \<Rightarrow> 's \<Rightarrow> bool) \<Rightarrow> ('s \<Rightarrow> 's \<Rightarrow> bool) \<Rightarrow> ('s \<Rightarrow> 's \<Rightarrow> bool) \<Rightarrow> ('s \<Rightarrow> 's outcome) \<Rightarrow> bool" where
  "related R N E st = (\<forall>s t. R s t \<longrightarrow> rel_outcome N E (st s) (st t))"

text \<open>How a statement ends does not depend on the structure it started from.\<close>

definition uniform :: "('s \<Rightarrow> 's outcome) \<Rightarrow> bool" where
  "uniform st = related (\<lambda>s t. True) (\<lambda>s t. True) (\<lambda>s t. True) st"

text \<open>The same for the result of a decode.\<close>

fun rel_result :: "(SystemInfo \<Rightarrow> SystemInfo \<Rightarrow> bool) \<Rightarrow> parse_result \<Rightarrow> parse_result \<Rightarrow> bool" where
  "rel_result R (Returned b s) (Returned b' t) = (b = b' \<and> R s t)"
| "rel_result R (Threw e s) (Threw e' t) = (e = e' \<and> R s t)"
| "rel_result R (Aborted s) (Aborted t) = R s t"
| "rel_result R UndefinedBehaviour UndefinedBehaviour = True"
| "rel_result R _ _ = False"

text \<open>The record a decode leaves behind, when its behaviour is defined.\<close>

fun record_of :: "parse_result \<Rightarrow> SystemInfo option" where
  "record_of (Returned b s) = Some s"
| "record_of (Threw e s) = Some s"
| "record_of (Aborted s) = Some s"
| "record_of UndefinedBehaviour = None"

text \<open>
  The three lists of \<open>s\<close> are those of \<open>t\<close> with the lists of the record \<open>si\<close> in front.
\<close>

definition lists_extend :: "SystemInfo \<Rightarrow> SystemInfo \<Rightarrow> SystemInfo \<Rightarrow> bool" where
  "lists_extend si s t =
     (si_cpus s = si_cpus si @ si_cpus t \<and> si_gpus s = si_gpus si @ si_gpus t
      \<and> si_processes s = si_processes si @ si_processes t)"

text \<open>Two records differ in their version at most.\<close>

definition same_but_version :: "SystemInfo \<Rightarrow> SystemInfo \<Rightarrow> bool" where
  "same_but_version s t =
     (si_driver s = si_driver t \<and> si_devdriver s = si_devdriver t \<and> si_os s = si_os t
      \<and> si_cpus s = si_cpus t \<and> si_gpus s = si_gpus t \<and> si_processes s = si_processes t)"

text \<open>The subtree a decode works on: the member \<open>system\<close>, or the whole document.\<close>

definition system_subtree :: "json \<Rightarrow> json" where
  "system_subtree structure =
     (case child structure ''system'' of Some system_node \<Rightarrow> system_node | None \<Rightarrow> structure)"

text \<open>A document with one member removed.\<close>

fun remove_member :: "string \<Rightarrow> json \<Rightarrow> json" where
  "remove_member name (JObject ms) = JObject (filter (\<lambda>kv. fst kv \<noteq> name) ms)"
| "remove_member name v = v"

text \<open>
  The process that a node of the process list describes: its name, its path and its id,
  each the member of that name, or the empty string and 0 where the node has no such
  member. A node with a member of another type describes no process.
\<close>

definition described_process :: "json \<Rightarrow> Process option" where
  "described_process process_node =
     (case Get get_string process_node ''name'' '''' of
        Val nm \<Rightarrow>
          (case Get get_string process_node ''path'' '''' of
             Val pth \<Rightarrow>
               (case Get get_uint32 process_node ''processId'' 0 of
                  Val pid \<Rightarrow> Some \<lparr>proc_name = nm, proc_path = pth, proc_id = pid\<rparr>
                | _ \<Rightarrow> None)
           | _ \<Rightarrow> None)
      | _ \<Rightarrow> None)"

text \<open>
  Byte \<open>j\<close> of a decoded LUID: the low byte of what \<^verbatim>\<open>strtol\<close> reads from the slice of
  at most two characters at offset \<open>2 * j\<close>, and zero where the string has ended.
\<close>

definition luid_bytes :: "string \<Rightarrow> 8 word list" where
  "luid_bytes s =
     map (\<lambda>j. if 2 * j < length s then of_int (strtol16 (substr s (2 * j) 2)) else 0) [0..<8]"

text \<open>
  A CU mask is well formed when it is an array of arrays of unsigned integers; anything
  else is a structural violation.
\<close>

definition cu_mask_row_ok :: "json \<Rightarrow> bool" where
  "cu_mask_row_ok row = (is_array row \<and> list_all is_number_unsigned (elements row))"

definition cu_mask_violation :: "json \<Rightarrow> bool" where
  "cu_mask_violation node = (\<not> (is_array node \<and> list_all cu_mask_row_ok (elements node)))"

fun mask_value :: "json \<Rightarrow> 32 word" where
  "mask_value (JUInt n) = of_nat n"
| "mask_value v = 0"

section \<open>Auxiliary facts\<close>

subsection \<open>Strings and the LUID loop\<close>

lemma find_first_of_split:
  "c \<notin> set a \<Longrightarrow> find_first_of (a @ c # r) c = Some (length a)"
  by (induction a) (auto simp: find_first_of_def)

lemma find_first_not_of_all:
  "\<forall>x\<in>set r. x \<in> set chars \<Longrightarrow> find_first_not_of (a @ c # r) chars (length a + 1) = None"
  by (simp add: find_first_not_of_def dropWhile_eq_Nil_conv)

lemma luid_loop_some:
  "length luid = 8 \<Longrightarrow> length s \<le> 16 \<Longrightarrow> even i \<Longrightarrow>
   \<exists>r. ProcessAsicIdInfoNode_luid s i luid = Some r \<and> length r = 8 \<and>
       (\<forall>j<8. r ! j = (if i div 2 \<le> j \<and> 2 * j < length s
                        then of_int (strtol16 (substr s (2 * j) 2)) else luid ! j))"
proof (induction s i luid rule: ProcessAsicIdInfoNode_luid.induct)
  case (1 s i luid)
  show ?case
  proof (cases "i < length s")
    case False
    then have "ProcessAsicIdInfoNode_luid s i luid = Some luid"
      by (subst ProcessAsicIdInfoNode_luid.simps) simp
    moreover have "\<forall>j<8. \<not> (i div 2 \<le> j \<and> 2 * j < length s)"
      using False "1.prems"(3) by (auto elim!: evenE)
    ultimately show ?thesis using "1.prems"(1) by auto
  next
    case True
    then have lt: "i div 2 < 8" using "1.prems"(2) by linarith
    let ?l = "luid[i div 2 := of_int (strtol16 (substr s i 2))]"
    have i2: "2 * (i div 2) = i" using "1.prems"(3) by simp
    from "1.IH" [OF True lt] "1.prems"
    obtain r where r: "ProcessAsicIdInfoNode_luid s (i + 2) ?l = Some r" "length r = 8"
      "\<forall>j<8. r ! j = (if (i + 2) div 2 \<le> j \<and> 2 * j < length s
                        then of_int (strtol16 (substr s (2 * j) 2)) else ?l ! j)"
      by auto
    have step: "ProcessAsicIdInfoNode_luid s i luid = Some r"
      using True lt r(1) by (subst ProcessAsicIdInfoNode_luid.simps) simp
    have "\<forall>j<8. r ! j = (if i div 2 \<le> j \<and> 2 * j < length s
                        then of_int (strtol16 (substr s (2 * j) 2)) else luid ! j)"
    proof (intro allI impI)
      fix j :: nat assume j: "j < 8"
      show "r ! j = (if i div 2 \<le> j \<and> 2 * j < length s
                        then of_int (strtol16 (substr s (2 * j) 2)) else luid ! j)"
      proof (cases "j = i div 2")
        case True
        then show ?thesis using r(3) j i2 \<open>i < length s\<close> "1.prems"(1) by simp
      next
        case False
        then show ?thesis using r(3) j "1.prems"(1) by (auto simp: nth_list_update)
      qed
    qed
    with step r(2) show ?thesis by blast
  qed
qed

lemma luid_loop_none:
  "17 \<le> length s \<Longrightarrow> even i \<Longrightarrow> i \<le> 16 \<Longrightarrow> ProcessAsicIdInfoNode_luid s i luid = None"
proof (induction s i luid rule: ProcessAsicIdInfoNode_luid.induct)
  case (1 s i luid)
  show ?case
  proof (cases "i = 16")
    case True
    then show ?thesis using "1.prems"(1) by (subst ProcessAsicIdInfoNode_luid.simps) simp
  next
    case False
    then have i: "i < 16" "i + 2 \<le> 16" using "1.prems"(2,3) by (auto elim!: evenE)
    then have a: "i < length s" "i div 2 < 8" using "1.prems"(1) by auto
    from "1.IH" [OF a "1.prems"(1)] i(2) "1.prems"(2)
    have "ProcessAsicIdInfoNode_luid s (i + 2) (luid[i div 2 := of_int (strtol16 (substr s i 2))]) = None"
      by simp
    then show ?thesis using a by (subst ProcessAsicIdInfoNode_luid.simps) simp
  qed
qed

lemma luid_loop_bytes:
  assumes "length s \<le> 16"
  shows "ProcessAsicIdInfoNode_luid s 0 (replicate 8 0) = Some (luid_bytes s)"
proof -
  from luid_loop_some [of "replicate 8 0" s 0] assms
  obtain r where r: "ProcessAsicIdInfoNode_luid s 0 (replicate 8 0) = Some r" "length r = 8"
      "\<forall>j<8. r ! j = (if 2 * j < length s then of_int (strtol16 (substr s (2 * j) 2)) else 0)"
    by auto
  have "r = luid_bytes s"
    using r(2,3) by (auto simp: luid_bytes_def list_eq_iff_nth_eq simp del: upt_Suc)
  with r(1) show ?thesis by simp
qed

subsection \<open>The CU mask loops\<close>

lemma row_bad:
  "\<not> list_all is_number_unsigned its \<Longrightarrow> ProcessCuMaskNode_row its m = (True, [])"
  by (induction its arbitrary: m) (auto split: json.splits)

lemma row_ok:
  "list_all is_number_unsigned its \<Longrightarrow>
   ProcessCuMaskNode_row its (m @ [r]) = (False, m @ [r @ map mask_value its])"
proof (induction its arbitrary: r)
  case Nil
  then show ?case by simp
next
  case (Cons a its)
  then obtain n where a: "a = JUInt n" by (cases a) auto
  from Cons show ?case by (simp add: a push_back_last_def)
qed

lemma rows_bad:
  "\<not> list_all cu_mask_row_ok rows \<Longrightarrow> ProcessCuMaskNode_rows rows m = []"
proof (induction rows arbitrary: m)
  case Nil
  then show ?case by simp
next
  case (Cons a rows)
  show ?case
  proof (cases "cu_mask_row_ok a")
    case True
    then have "ProcessCuMaskNode_row (elements a) (m @ [[]]) = (False, m @ [map mask_value (elements a)])"
      using row_ok [of "elements a" m "[]"] by (simp add: cu_mask_row_ok_def)
    moreover have "\<not> list_all cu_mask_row_ok rows" using Cons.prems True by simp
    then have "ProcessCuMaskNode_rows rows (m @ [map mask_value (elements a)]) = []"
      by (rule Cons.IH)
    moreover have "is_array a" using True by (simp add: cu_mask_row_ok_def)
    ultimately show ?thesis by simp
  next
    case False
    then show ?thesis
      using row_bad [of "elements a" "m @ [[]]"] by (auto simp: cu_mask_row_ok_def)
  qed
qed

lemma rows_ok:
  "list_all cu_mask_row_ok rows \<Longrightarrow>
   ProcessCuMaskNode_rows rows m = m @ map (\<lambda>r. map mask_value (elements r)) rows"
proof (induction rows arbitrary: m)
  case Nil
  then show ?case by simp
next
  case (Cons a rows)
  from Cons.prems have ak: "cu_mask_row_ok a" and r: "list_all cu_mask_row_ok rows"
    by simp_all
  from ak have a: "is_array a" "list_all is_number_unsigned (elements a)"
    by (simp_all add: cu_mask_row_ok_def)
  have "ProcessCuMaskNode_row (elements a) (m @ [[]]) = (False, m @ [map mask_value (elements a)])"
    using row_ok [of "elements a" m "[]"] a by simp
  moreover have "ProcessCuMaskNode_rows rows (m @ [map mask_value (elements a)])
      = (m @ [map mask_value (elements a)]) @ map (\<lambda>r. map mask_value (elements r)) rows"
    using r by (rule Cons.IH)
  ultimately show ?case using a by simp
qed

subsection \<open>Properties kept by statements\<close>

lemma preserves_assign:
  "(\<And>v s. P s \<Longrightarrow> P (upd v s)) \<Longrightarrow> preserves P (assign upd r)"
  by (cases r) (auto simp: preserves_def assign_def)

lemma preserves_if_node:
  "(\<And>n. child p k = Some n \<Longrightarrow> preserves P (body n)) \<Longrightarrow> preserves P (if_node p k body)"
  by (auto simp: preserves_def if_node_def split: option.splits)

lemma holds_after_map_outcome:
  "holds_after P (map_outcome f out) = holds_after (\<lambda>m. P (f m)) out"
  by (cases out) auto

lemma preserves_in_member:
  "(\<And>m s. P s \<Longrightarrow> P (upd m s)) \<Longrightarrow> preserves P (in_member sel upd f)"
  by (auto simp: preserves_def in_member_def holds_after_map_outcome)
     (metis holds_after.elims(3))

lemma preserves_in_member_sub:
  "preserves Q f \<Longrightarrow> (\<And>s. P s \<Longrightarrow> Q (sel s)) \<Longrightarrow> (\<And>m s. P s \<Longrightarrow> Q m \<Longrightarrow> P (upd m s)) \<Longrightarrow>
   preserves P (in_member sel upd f)"
  unfolding preserves_def in_member_def holds_after_map_outcome
proof (intro allI impI)
  fix s assume a: "\<forall>s. Q s \<longrightarrow> holds_after Q (f s)" "\<And>s. P s \<Longrightarrow> Q (sel s)"
    "\<And>m s. P s \<Longrightarrow> Q m \<Longrightarrow> P (upd m s)" "P s"
  then have "holds_after Q (f (sel s))" by simp
  then show "holds_after (\<lambda>m. P (upd m s)) (f (sel s))"
    using a(3,4) by (cases "f (sel s)") auto
qed

lemma preserves_run_steps:
  "(\<And>st. st \<in> set sts \<Longrightarrow> preserves P st) \<Longrightarrow> preserves P (run_steps sts)"
proof (induction sts)
  case Nil
  then show ?case by (simp add: preserves_def)
next
  case (Cons a sts)
  then have a: "preserves P a" and r: "preserves P (run_steps sts)" by simp_all
  show ?case unfolding preserves_def
  proof (intro allI impI)
    fix s assume "P s"
    with a have h: "holds_after P (a s)" by (simp add: preserves_def)
    show "holds_after P (run_steps (a # sts) s)"
    proof (cases "a s")
      case (Normal s')
      with h r show ?thesis by (simp add: preserves_def)
    qed (use h in auto)
  qed
qed

lemma preservesD:
  "preserves P st \<Longrightarrow> P s \<Longrightarrow> holds_after P (st s)"
  by (simp add: preserves_def)

subsection \<open>The packaging version\<close>

lemma versions_minor_kept:
  assumes "drv_packaging_version d = a @ CHR ''.'' # ds" "CHR ''.'' \<notin> set a"
    and "\<forall>c\<in>set ds. isdigit c"
    and "ProcessDriverNode_versions d = Normal d'"
  shows "drv_packaging_version_minor d' = drv_packaging_version_minor d"
proof -
  have f: "find_first_of (a @ CHR ''.'' # ds) CHR ''.'' = Some (length a)"
    using assms(2) by (rule find_first_of_split)
  have n: "find_first_not_of (a @ CHR ''.'' # ds) ''0123456789'' (length a + 1) = None"
    using assms(3) unfolding isdigit_def by (rule find_first_not_of_all)
  show ?thesis
    using assms(1,4) f n
    by (auto simp: ProcessDriverNode_versions_def Let_def split: option.splits)
qed

text \<open>
  Where a character that is no digit ends the run, the minor is read: \<open>23.40.12\<close> gives
  23 and 40. Without a \<open>.\<close> nothing is written, and \<open>23.\<close> gives major 23 alone.
\<close>

lemma packaging_version_examples:
  "ProcessDriverNode (JObject [(''packagingVersion'', JString ''23.40.12'')]) zero_DriverInfo
     = Normal (zero_DriverInfo\<lparr>drv_packaging_version := ''23.40.12'',
                 drv_packaging_version_major := 23, drv_packaging_version_minor := 40\<rparr>)"
  "ProcessDriverNode (JObject [(''packagingVersion'', JString ''23'')]) zero_DriverInfo
     = Normal (zero_DriverInfo\<lparr>drv_packaging_version := ''23''\<rparr>)"
  "ProcessDriverNode (JObject [(''packagingVersion'', JString ''23.'')]) zero_DriverInfo
     = Normal (zero_DriverInfo\<lparr>drv_packaging_version := ''23.'', drv_packaging_version_major := 23\<rparr>)"
  by code_simp+

subsection \<open>More on the LUID\<close>

lemma not_xdigit_not_0: "\<not> isxdigit c \<Longrightarrow> c \<noteq> CHR ''0''"
  by (auto simp: isxdigit_def)

lemma skip_0x_no: "\<not> isxdigit c \<Longrightarrow> skip_0x (c # r) = c # r"
  using not_xdigit_not_0 [of c] by (simp add: skip_0x_def split: list.splits)

lemma strtol16_no_prefix:
  assumes "\<not> isxdigit c" "\<not> isspace c" "c \<noteq> CHR ''-''" "c \<noteq> CHR ''+''"
  shows "strtol16 (c # r) = 0"
proof -
  have 1: "dropWhile isspace (c # r) = c # r" using assms(2) by simp
  have 2: "skip_sign (c # r) = c # r" using assms(3,4) by (simp add: skip_sign_def)
  have 3: "skip_0x (c # r) = c # r" using assms(1) by (rule skip_0x_no)
  have 4: "takeWhile isxdigit (c # r) = []" using assms(1) by simp
  show ?thesis using assms 2 3 by (simp add: strtol16_def Let_def number_value_def is_negative_def)
qed

lemma strtol16_Nil: "strtol16 [] = 0"
  by (simp add: strtol16_def skip_sign_def skip_0x_def is_negative_def number_value_def)

lemma run_steps_append:
  "run_steps (xs @ ys) s =
     (case run_steps xs s of Normal s' \<Rightarrow> run_steps ys s' | Raised e s' \<Rightarrow> Raised e s' | Undefined \<Rightarrow> Undefined)"
  by (induction xs arbitrary: s) (auto split: outcome.splits)

lemma run_steps_snoc_Normal:
  "run_steps (xs @ [l]) s = Normal s' \<Longrightarrow> \<exists>s1. run_steps xs s = Normal s1 \<and> l s1 = Normal s'"
  by (auto simp: run_steps_append split: outcome.splits)

lemma luid_loop_None_iff:
  "(ProcessAsicIdInfoNode_luid s 0 (replicate 8 0) = None) = (17 \<le> length s)"
proof (cases "17 \<le> length s")
  case True
  then show ?thesis using luid_loop_none [of s 0 "replicate 8 0"] by simp
next
  case False
  then have "length s \<le> 16" by simp
  from luid_loop_bytes [OF this] False show ?thesis by simp
qed

lemma run_steps_last_Normal:
  "run_steps sts s = Normal s' \<Longrightarrow> sts \<noteq> [] \<Longrightarrow> \<exists>s1. last sts s1 = Normal s'"
proof (induction sts arbitrary: s)
  case Nil
  then show ?case by simp
next
  case (Cons a sts)
  show ?case
  proof (cases "sts = []")
    case True
    with Cons.prems show ?thesis by (auto split: outcome.splits)
  next
    case False
    from Cons.prems(1) obtain s1 where "run_steps sts s1 = Normal s'"
      by (auto split: outcome.splits)
    from Cons.IH [OF this False] False show ?thesis by simp
  qed
qed

lemma AsicIdInfo_luid_Normal:
  assumes "ProcessAsicIdInfoNode node info = Normal info'"
    and "Get get_string node ''luid'' '''' = Val s"
  shows "length s \<le> 16 \<and> id_luid info' = luid_bytes s"
proof -
  from run_steps_last_Normal [OF assms(1) [unfolded ProcessAsicIdInfoNode_def]]
  obtain s1 where "ProcessAsicIdInfoNode_luid_field node s1 = Normal info'"
    by auto
  then obtain l where l: "ProcessAsicIdInfoNode_luid s 0 (replicate 8 0) = Some l" "id_luid info' = l"
    using assms(2) by (auto simp: ProcessAsicIdInfoNode_luid_field_def split: option.splits)
  then have "length s \<le> 16" using luid_loop_None_iff [of s] by (cases "17 \<le> length s") auto
  with l luid_loop_bytes [of s] show ?thesis by simp
qed

lemma AsicIdInfo_only_luid:
  "ProcessAsicIdInfoNode (JObject [(''luid'', JString s)]) info =
     (case ProcessAsicIdInfoNode_luid s 0 (replicate 8 0) of
        Some l \<Rightarrow> Normal (info\<lparr>id_gfx_engine := 0, id_family := 0, id_e_rev := 0, id_revision := 0,
                       id_device := 0, id_subsystem := 0, id_vendor := 0, id_luid := l\<rparr>)
      | None \<Rightarrow> Undefined)"
  by (simp add: ProcessAsicIdInfoNode_def ProcessAsicIdInfoNode_luid_field_def assign_def Get_def
        split: option.splits)

subsection \<open>The CU mask in a decoded GPU\<close>

lemma CuMaskNode_violation:
  assumes "cu_mask_violation node"
  shows "ProcessCuMaskNode node a =
           Normal (if is_array node then a\<lparr>asic_cu_mask := []\<rparr> else a)"
proof (cases "is_array node")
  case True
  with assms have "\<not> list_all cu_mask_row_ok (elements node)"
    by (simp add: cu_mask_violation_def)
  then show ?thesis using True by (simp add: ProcessCuMaskNode_def rows_bad)
next
  case False
  then show ?thesis by (simp add: ProcessCuMaskNode_def)
qed

lemma CuMaskNode_well_formed:
  assumes "\<not> cu_mask_violation node"
  shows "ProcessCuMaskNode node a =
           Normal (a\<lparr>asic_cu_mask := asic_cu_mask a @ map (\<lambda>r. map mask_value (elements r)) (elements node)\<rparr>)"
  using assms by (simp add: ProcessCuMaskNode_def cu_mask_violation_def rows_ok)

lemma preserves_CuMaskNode:
  "cu_mask_violation node \<Longrightarrow> preserves (\<lambda>a. asic_cu_mask a = []) (ProcessCuMaskNode node)"
  by (simp add: preserves_def CuMaskNode_violation)

lemma preserves_GpuAsicNode:
  assumes "child asic_root ''cuMask'' = Some node" "cu_mask_violation node"
  shows "preserves (\<lambda>a. asic_cu_mask a = []) (ProcessGpuAsicNode asic_root)"
  unfolding ProcessGpuAsicNode_def
proof (rule preserves_run_steps)
  fix st
  assume "st \<in> set
             [assign (\<lambda>v s. s\<lparr>asic_gpu_index := v\<rparr>) (Get get_uint32 asic_root ''gpuIndex'' (- 1)),
              assign (\<lambda>v s. s\<lparr>asic_gpu_counter_freq := v\<rparr>)
               (map_res ucast (Get get_uint32 asic_root ''gpuCounterFreq'' 0)),
              assign (\<lambda>v s. s\<lparr>asic_num_shader_engines := v\<rparr>)
               (Get get_uint32 asic_root ''numShaderEngines'' 0),
              assign (\<lambda>v s. s\<lparr>asic_num_shader_arrays_per_engine := v\<rparr>)
               (Get get_uint32 asic_root ''numShaderArraysPerEngine'' 0),
              assign (\<lambda>v s. s\<lparr>asic_num_cus := v\<rparr>) (Get get_uint32 asic_root ''numCus'' 0),
              if_node asic_root ''cuMask'' ProcessCuMaskNode,
              if_node asic_root ''engineClockHz''
               (\<lambda>clock_hz_root.
                   in_member asic_engine_clock_hz (\<lambda>m s. s\<lparr>asic_engine_clock_hz := m\<rparr>)
                    (ProcessClockInfoNode clock_hz_root)),
              if_node asic_root ''ids''
               (\<lambda>asic_id_info_root.
                   in_member asic_id_info (\<lambda>m s. s\<lparr>asic_id_info := m\<rparr>)
                    (ProcessAsicIdInfoNode asic_id_info_root))]"
  then show "preserves (\<lambda>a. asic_cu_mask a = []) st"
    using assms
    by (auto intro!: preserves_assign preserves_if_node preserves_in_member preserves_CuMaskNode)
qed

lemma gpu_cu_mask_empty:
  assumes "child gpu_node ''asic'' = Some asic_root" "child asic_root ''cuMask'' = Some node"
    "cu_mask_violation node"
  shows "holds_after (\<lambda>g. asic_cu_mask (gpu_asic g) = []) (ProcessGpusNodes_gpu gpu_node)"
proof -
  have "preserves (\<lambda>g. asic_cu_mask (gpu_asic g) = [])
     (run_steps
       [assign (\<lambda>v s. s\<lparr>gpu_name := v\<rparr>) (Get get_string gpu_node ''name'' ''''),
        if_node gpu_node ''pci'' (\<lambda>pci_root.
          in_member gpu_pci (\<lambda>m s. s\<lparr>gpu_pci := m\<rparr>) (ProcessGpuPciNode pci_root)),
        if_node gpu_node ''asic'' (\<lambda>asic_root.
          in_member gpu_asic (\<lambda>m s. s\<lparr>gpu_asic := m\<rparr>) (ProcessGpuAsicNode asic_root)),
        if_node gpu_node ''memory'' (\<lambda>memory_root.
          in_member gpu_memory (\<lambda>m s. s\<lparr>gpu_memory := m\<rparr>) (ProcessGpuMemoryNode memory_root)),
        if_node gpu_node ''bigSw'' (\<lambda>sw_version_root.
          in_member gpu_big_sw (\<lambda>m s. s\<lparr>gpu_big_sw := m\<rparr>)
            (ProcessSoftwareVersionNode sw_version_root))])"
  proof (rule preserves_run_steps, goal_cases)
    case (1 st)
    have asic: "preserves (\<lambda>g. asic_cu_mask (gpu_asic g) = [])
        (in_member gpu_asic (\<lambda>m s. s\<lparr>gpu_asic := m\<rparr>) (ProcessGpuAsicNode asic_root))"
      by (rule preserves_in_member_sub [OF preserves_GpuAsicNode [OF assms(2,3)]]) simp_all
    let ?asic_step = "if_node gpu_node ''asic'' (\<lambda>asic_root.
          in_member gpu_asic (\<lambda>m s. s\<lparr>gpu_asic := m\<rparr>) (ProcessGpuAsicNode asic_root))"
    show ?case
    proof (cases "st = ?asic_step")
      case True
      have "preserves (\<lambda>g. asic_cu_mask (gpu_asic g) = []) ?asic_step"
        by (rule preserves_if_node) (use assms(1) asic in simp)
      with True show ?thesis by simp
    next
      case False
      with 1 show ?thesis
        by (auto intro!: preserves_assign preserves_if_node preserves_in_member)
    qed
  qed
  then show ?thesis
    unfolding ProcessGpusNodes_gpu_def
    by (rule preservesD) (simp add: zero_GpuInfo_def zero_AsicInfo_def)
qed

subsection \<open>The version and the strategies\<close>

lemma V1_keeps:
  assumes "\<And>m s. child node ''devdriver'' \<noteq> None \<Longrightarrow> f (s\<lparr>si_devdriver := m\<rparr>) = f s"
    "\<And>m s. child node ''driver'' \<noteq> None \<Longrightarrow> f (s\<lparr>si_driver := m\<rparr>) = f s"
    "\<And>m s. child node ''os'' \<noteq> None \<Longrightarrow> f (s\<lparr>si_os := m\<rparr>) = f s"
    "\<And>m s. child node ''cpus'' \<noteq> None \<Longrightarrow> f (s\<lparr>si_cpus := m\<rparr>) = f s"
    "\<And>m s. child node ''gpus'' \<noteq> None \<Longrightarrow> f (s\<lparr>si_gpus := m\<rparr>) = f s"
  shows "preserves (\<lambda>s. f s = v) (V1_ProcessSystemValueNode node)"
  unfolding V1_ProcessSystemValueNode_def
proof (rule preserves_run_steps, goal_cases)
  case (1 st)
  then show ?case
    by (auto intro!: preserves_if_node preserves_in_member simp: assms)
qed

lemma in_member_frame:
  "(\<And>m. sel (upd m s) = m) \<Longrightarrow> holds_after (\<lambda>s'. s' = upd (sel s') s) (in_member sel upd f s)"
  by (cases "f (sel s)") (simp_all add: in_member_def)

lemma version_step_frame:
  "holds_after (\<lambda>s. s = si\<lparr>si_version := si_version s\<rparr>) (ProcessSystemNode_version node si)"
  unfolding ProcessSystemNode_version_def by (rule in_member_frame) simp

lemma version_object:
  assumes "child node ''version'' = Some vn" "is_object vn"
    "Get get_uint32 vn ''major'' 2 = Val a" "Get get_uint32 vn ''minor'' 0 = Val b"
    "Get get_uint32 vn ''patch'' 0 = Val c" "Get get_uint32 vn ''build'' 0 = Val d"
  shows "ProcessSystemNode_version node si =
    Normal (si\<lparr>si_version := \<lparr>ver_major = a, ver_minor = b, ver_patch = c, ver_build = d\<rparr>\<rparr>)"
  using assms by (simp add: ProcessSystemNode_version_def in_member_def DoesNodeExist_def assign_def)

lemma version_scalar:
  assumes "child node ''version'' = Some v" "\<not> is_object v" "get_uint32 v = Val n"
  shows "ProcessSystemNode_version node si =
    Normal (si\<lparr>si_version := (si_version si)\<lparr>ver_major := n\<rparr>\<rparr>)"
  using assms by (simp add: ProcessSystemNode_version_def in_member_def DoesNodeExist_def assign_def Get_def)

lemma version_absent:
  assumes "child node ''version'' = None"
  shows "ProcessSystemNode_version node si =
    Normal (si\<lparr>si_version := (si_version si)\<lparr>ver_major := 1\<rparr>\<rparr>)"
  using assms by (simp add: ProcessSystemNode_version_def in_member_def DoesNodeExist_def assign_def Get_def)

lemma Parse_via_subtree:
  "parse json = Some structure \<Longrightarrow>
   Parse ndebug parse json si =
     (case ProcessSystemNode ndebug (system_subtree structure) si of
        Returned result s \<Rightarrow> Returned result s
      | Threw e s \<Rightarrow> Returned False s
      | Aborted s \<Rightarrow> Aborted s
      | UndefinedBehaviour \<Rightarrow> UndefinedBehaviour)"
  by (simp add: Parse_def system_subtree_def split: option.splits)

lemma V2_keeps:
  assumes "\<And>m s. child node ''devdriver'' \<noteq> None \<Longrightarrow> f (s\<lparr>si_devdriver := m\<rparr>) = f s"
    "\<And>m s. child node ''driver'' \<noteq> None \<Longrightarrow> f (s\<lparr>si_driver := m\<rparr>) = f s"
    "\<And>m s. child node ''os'' \<noteq> None \<Longrightarrow> f (s\<lparr>si_os := m\<rparr>) = f s"
    "\<And>m s. child node ''cpus'' \<noteq> None \<Longrightarrow> f (s\<lparr>si_cpus := m\<rparr>) = f s"
    "\<And>m s. child node ''gpus'' \<noteq> None \<Longrightarrow> f (s\<lparr>si_gpus := m\<rparr>) = f s"
    "\<And>m s. child node ''processes'' \<noteq> None \<Longrightarrow> f (s\<lparr>si_processes := m\<rparr>) = f s"
  shows "preserves (\<lambda>s. f s = v) (V2_ProcessSystemValueNode node)"
  unfolding V2_ProcessSystemValueNode_def
proof (rule preserves_run_steps, goal_cases)
  case (1 st)
  have "preserves (\<lambda>s. f s = v) (V1_ProcessSystemValueNode node)"
    by (rule V1_keeps) (simp_all add: assms)
  moreover have "preserves (\<lambda>s. f s = v) (if_node node ''processes'' (\<lambda>n.
          in_member si_processes (\<lambda>m s. s\<lparr>si_processes := m\<rparr>) (ProcessProcessListNode n)))"
    by (intro preserves_if_node preserves_in_member) (simp add: assms)
  ultimately show ?case using 1 by auto
qed

lemma strategy_keeps_version:
  "preserves (\<lambda>s. si_version s = v) (ProcessSystemValueNode parser node)"
proof (cases parser)
  case SystemInfoParserV1
  then show ?thesis using V1_keeps [where f = si_version and v = v and node = node] by simp
next
  case SystemInfoParserV2
  then show ?thesis using V2_keeps [where f = si_version and v = v and node = node] by simp
qed

lemma ProcessSystemNode_version_of:
  assumes "ProcessSystemNode_version node si = Normal s"
    and r: "ProcessSystemNode ndebug node si = Returned ok s'"
  shows "si_version s' = si_version s"
proof (cases "CreateSystemInfoParser (ver_major (si_version s))")
  case None
  with r assms show ?thesis by (simp add: ProcessSystemNode_def split: if_splits)
next
  case (Some parser)
  from preservesD [OF strategy_keeps_version [of "si_version s" parser node], of s]
  have "holds_after (\<lambda>x. si_version x = si_version s) (ProcessSystemValueNode parser node s)"
    by simp
  with r assms(1) Some show ?thesis
    by (cases "ProcessSystemValueNode parser node s") (simp_all add: ProcessSystemNode_def)
qed

subsection \<open>Two runs of the same statements\<close>

lemma relatedI:
  "(\<And>s t. R s t \<Longrightarrow> rel_outcome N E (st s) (st t)) \<Longrightarrow> related R N E st"
  by (simp add: related_def)

lemma relatedD:
  "related R N E st \<Longrightarrow> R s t \<Longrightarrow> rel_outcome N E (st s) (st t)"
  by (simp add: related_def)

lemma related_assign:
  "(\<And>v s t. R s t \<Longrightarrow> N (upd v s) (upd v t)) \<Longrightarrow> (\<And>s t. R s t \<Longrightarrow> E s t) \<Longrightarrow>
   related R N E (assign upd r)"
  by (cases r) (auto simp: related_def assign_def)

lemma related_if_node:
  "(\<And>n. child p k = Some n \<Longrightarrow> related R N E (body n)) \<Longrightarrow> (\<And>s t. R s t \<Longrightarrow> N s t) \<Longrightarrow>
   related R N E (if_node p k body)"
  by (cases "child p k") (auto simp: related_def if_node_def)

lemma related_nil:
  "(\<And>s t. R s t \<Longrightarrow> N s t) \<Longrightarrow> related R N E (run_steps [])"
  by (simp add: related_def)

lemma related_cons:
  assumes "related R M E st" "related M N E (run_steps sts)"
  shows "related R N E (run_steps (st # sts))"
proof (rule relatedI)
  fix s t assume "R s t"
  with assms(1) have h: "rel_outcome M E (st s) (st t)" by (rule relatedD)
  show "rel_outcome N E (run_steps (st # sts) s) (run_steps (st # sts) t)"
  proof (cases "st s")
    case (Normal s')
    with h obtain t' where t: "st t = Normal t'" "M s' t'" by (cases "st t") auto
    from relatedD [OF assms(2) t(2)] Normal t(1) show ?thesis by simp
  next
    case (Raised e s')
    with h show ?thesis by (cases "st t") auto
  next
    case Undefined
    with h show ?thesis by (cases "st t") auto
  qed
qed

lemma related_run_steps:
  assumes "\<And>st. st \<in> set sts \<Longrightarrow> related R R E st"
  shows "related R R E (run_steps sts)"
  using assms
proof (induction sts)
  case Nil
  show ?case by (rule related_nil)
next
  case (Cons a sts)
  show ?case by (rule related_cons [where M = R]) (simp_all add: Cons)
qed

lemma related_in_member:
  assumes "related Q QN QE f" "\<And>s t. R s t \<Longrightarrow> Q (sel s) (sel t)"
    "\<And>m m' s t. R s t \<Longrightarrow> QN m m' \<Longrightarrow> N (upd m s) (upd m' t)"
    "\<And>m m' s t. R s t \<Longrightarrow> QE m m' \<Longrightarrow> E (upd m s) (upd m' t)"
  shows "related R N E (in_member sel upd f)"
proof (rule relatedI)
  fix s t assume r: "R s t"
  then have "Q (sel s) (sel t)" by (rule assms(2))
  with assms(1) have h: "rel_outcome QN QE (f (sel s)) (f (sel t))" by (rule relatedD)
  show "rel_outcome N E (in_member sel upd f s) (in_member sel upd f t)"
    using h assms(3,4) [OF r]
    by (cases "f (sel s)"; cases "f (sel t)") (simp_all add: in_member_def)
qed

lemma uniform_assign: "uniform (assign upd r)"
  unfolding uniform_def by (rule related_assign) simp_all

lemma uniform_if_node: "(\<And>n. child p k = Some n \<Longrightarrow> uniform (body n)) \<Longrightarrow> uniform (if_node p k body)"
  unfolding uniform_def by (rule related_if_node) simp_all

lemma uniform_run_steps: "(\<And>st. st \<in> set sts \<Longrightarrow> uniform st) \<Longrightarrow> uniform (run_steps sts)"
  unfolding uniform_def by (rule related_run_steps) simp

lemma uniform_in_member: "uniform f \<Longrightarrow> uniform (in_member sel upd f)"
  unfolding uniform_def by (rule related_in_member) simp_all

lemma related_uniform_member:
  assumes "uniform f" "\<And>m m' s t. R s t \<Longrightarrow> R (upd m s) (upd m' t)"
  shows "related R R R (in_member sel upd f)"
  using assms(1) unfolding uniform_def
  by (rule related_in_member) (simp_all add: assms(2))

lemma push_each_append:
  "push_each build its (pre @ vec) = map_outcome (\<lambda>ys. pre @ ys) (push_each build its vec)"
proof (induction its arbitrary: vec)
  case Nil
  show ?case by simp
next
  case (Cons a its)
  from Cons [of "vec @ [x]" for x] show ?case by (cases "build a") simp_all
qed

lemma rel_outcome_map_outcome:
  "rel_outcome (\<lambda>xs ys. xs = f ys) (\<lambda>xs ys. xs = f ys) (map_outcome f out) out"
  by (cases out) simp_all

lemma related_list_member:
  assumes f: "\<And>pre vec. f (pre @ vec) = map_outcome (\<lambda>ys. pre @ ys) (f vec)"
    and q: "\<And>s t. R s t \<Longrightarrow> sel s = pre @ sel t"
    and n: "\<And>m s t. R s t \<Longrightarrow> R (upd (pre @ m) s) (upd m t)"
  shows "related R R R (in_member sel upd f)"
proof (rule related_in_member [where Q = "\<lambda>xs ys. xs = pre @ ys" and QN = "\<lambda>xs ys. xs = pre @ ys"
      and QE = "\<lambda>xs ys. xs = pre @ ys"])
  show "related (\<lambda>xs ys. xs = pre @ ys) (\<lambda>xs ys. xs = pre @ ys) (\<lambda>xs ys. xs = pre @ ys) f"
    by (rule relatedI) (simp add: f rel_outcome_map_outcome)
qed (simp_all add: q n)

subsection \<open>A decode into a record that already holds entries\<close>

lemma uniform_DevDriverNode: "uniform (ProcessDevDriverNode n)"
  unfolding ProcessDevDriverNode_def
  by (rule uniform_run_steps) (auto intro!: uniform_if_node uniform_assign)

lemma uniform_OsMemoryNode: "uniform (ProcessOsMemoryNode n)"
  unfolding ProcessOsMemoryNode_def
  by (rule uniform_run_steps) (auto intro!: uniform_assign)

lemma uniform_EtwNode: "uniform (ProcessEtwNode n)"
  unfolding ProcessEtwNode_def
  by (rule uniform_run_steps) (auto intro!: uniform_assign)

lemma uniform_OsNode: "uniform (ProcessOsNode n)"
  unfolding ProcessOsNode_def
  by (rule uniform_run_steps)
     (auto intro!: uniform_if_node uniform_assign uniform_in_member uniform_run_steps
        uniform_OsMemoryNode uniform_EtwNode)

lemma versions_related:
  "related (\<lambda>s t. drv_packaging_version s = drv_packaging_version t) (\<lambda>s t. True) (\<lambda>s t. True)
     ProcessDriverNode_versions"
  by (rule relatedI)
     (auto simp: ProcessDriverNode_versions_def Let_def split: option.splits)

lemma uniform_DriverNode: "uniform (ProcessDriverNode n)"
  unfolding ProcessDriverNode_def uniform_def
  apply (rule related_cons [where M = "\<lambda>s t. True"], rule related_assign, simp, simp)
  apply (rule related_cons [where M = "\<lambda>s t. True"], rule related_assign, simp, simp)
  apply (rule related_cons [where M = "\<lambda>s t. True"], rule related_assign, simp, simp)
  apply (rule related_cons [where M = "\<lambda>s t. drv_packaging_version s = drv_packaging_version t"],
         rule related_assign, simp, simp)
  apply (rule related_cons [where M = "\<lambda>s t. drv_packaging_version s = drv_packaging_version t"],
         rule related_assign, simp, simp)
  apply (rule related_cons [where M = "\<lambda>s t. True"], rule versions_related)
  apply (rule related_nil, simp)
  done

lemma V1_related_lists:
  "related (lists_extend si) (lists_extend si) (lists_extend si) (V1_ProcessSystemValueNode node)"
  unfolding V1_ProcessSystemValueNode_def
proof (rule related_run_steps, goal_cases)
  case (1 st)
  let ?R = "lists_extend si"
  have dd: "related ?R ?R ?R (if_node node ''devdriver'' (\<lambda>n.
          in_member si_devdriver (\<lambda>m s. s\<lparr>si_devdriver := m\<rparr>) (ProcessDevDriverNode n)))"
    by (intro related_if_node related_uniform_member uniform_DevDriverNode)
       (simp_all add: lists_extend_def)
  have dr: "related ?R ?R ?R (if_node node ''driver'' (\<lambda>n.
          in_member si_driver (\<lambda>m s. s\<lparr>si_driver := m\<rparr>) (ProcessDriverNode n)))"
    by (intro related_if_node related_uniform_member uniform_DriverNode)
       (simp_all add: lists_extend_def)
  have os: "related ?R ?R ?R (if_node node ''os'' (\<lambda>n.
          in_member si_os (\<lambda>m s. s\<lparr>si_os := m\<rparr>) (ProcessOsNode n)))"
    by (intro related_if_node related_uniform_member uniform_OsNode)
       (simp_all add: lists_extend_def)
  have cpus: "related ?R ?R ?R (if_node node ''cpus'' (\<lambda>n.
          in_member si_cpus (\<lambda>m s. s\<lparr>si_cpus := m\<rparr>) (ProcessCpusNode n)))"
    by (intro related_if_node related_list_member [where pre = "si_cpus si"])
       (simp_all add: lists_extend_def ProcessCpusNode_def push_each_append)
  have gpus: "related ?R ?R ?R (if_node node ''gpus'' (\<lambda>n.
          in_member si_gpus (\<lambda>m s. s\<lparr>si_gpus := m\<rparr>) (ProcessGpusNodes n)))"
    by (intro related_if_node related_list_member [where pre = "si_gpus si"])
       (simp_all add: lists_extend_def ProcessGpusNodes_def push_each_append)
  from 1 dd dr os cpus gpus show ?case by auto
qed

lemma V2_related_lists:
  "related (lists_extend si) (lists_extend si) (lists_extend si) (V2_ProcessSystemValueNode node)"
  unfolding V2_ProcessSystemValueNode_def
proof (rule related_run_steps, goal_cases)
  case (1 st)
  let ?R = "lists_extend si"
  have ps: "related ?R ?R ?R (if_node node ''processes'' (\<lambda>n.
          in_member si_processes (\<lambda>m s. s\<lparr>si_processes := m\<rparr>) (ProcessProcessListNode n)))"
    by (intro related_if_node related_list_member [where pre = "si_processes si"])
       (simp_all add: lists_extend_def ProcessProcessListNode_def push_each_append)
  from 1 ps V1_related_lists [of si node] show ?case by auto
qed

lemma strategy_related_lists:
  "related (lists_extend si) (lists_extend si) (lists_extend si) (ProcessSystemValueNode parser node)"
  by (cases parser) (simp_all add: V1_related_lists V2_related_lists)

lemma version_inner_related:
  "related (\<lambda>s t. True) (\<lambda>s t. ver_major s = ver_major t) (\<lambda>s t. True)
     (if DoesNodeExist system_node ''version''
           \<and> (case child system_node ''version'' of Some v \<Rightarrow> is_object v | None \<Rightarrow> False)
        then
          (case child system_node ''version'' of
             Some version_node \<Rightarrow>
               run_steps
                 [assign (\<lambda>v s. s\<lparr>ver_major := v\<rparr>) (Get get_uint32 version_node ''major'' 2),
                  assign (\<lambda>v s. s\<lparr>ver_minor := v\<rparr>) (Get get_uint32 version_node ''minor'' 0),
                  assign (\<lambda>v s. s\<lparr>ver_patch := v\<rparr>) (Get get_uint32 version_node ''patch'' 0),
                  assign (\<lambda>v s. s\<lparr>ver_build := v\<rparr>) (Get get_uint32 version_node ''build'' 0)]
           | None \<Rightarrow> Normal)
        else assign (\<lambda>v s. s\<lparr>ver_major := v\<rparr>) (Get get_uint32 system_node ''version'' 1))"
proof (cases "child system_node ''version''")
  case None
  then show ?thesis by (simp add: DoesNodeExist_def related_assign)
next
  case (Some vn)
  show ?thesis
  proof (cases "is_object vn")
    case False
    with Some show ?thesis by (simp add: DoesNodeExist_def related_assign)
  next
    case True
    have "related (\<lambda>s t. True) (\<lambda>s t. ver_major s = ver_major t) (\<lambda>s t. True)
       (run_steps
                 [assign (\<lambda>v s. s\<lparr>ver_major := v\<rparr>) (Get get_uint32 vn ''major'' 2),
                  assign (\<lambda>v s. s\<lparr>ver_minor := v\<rparr>) (Get get_uint32 vn ''minor'' 0),
                  assign (\<lambda>v s. s\<lparr>ver_patch := v\<rparr>) (Get get_uint32 vn ''patch'' 0),
                  assign (\<lambda>v s. s\<lparr>ver_build := v\<rparr>) (Get get_uint32 vn ''build'' 0)])"
      apply (rule related_cons [where M = "\<lambda>s t. ver_major s = ver_major t"], rule related_assign, simp, simp)
      apply (rule related_cons [where M = "\<lambda>s t. ver_major s = ver_major t"], rule related_assign, simp, simp)
      apply (rule related_cons [where M = "\<lambda>s t. ver_major s = ver_major t"], rule related_assign, simp, simp)
      apply (rule related_cons [where M = "\<lambda>s t. ver_major s = ver_major t"], rule related_assign, simp, simp)
      apply (rule related_nil, simp)
      done
    with Some True show ?thesis by (simp add: DoesNodeExist_def)
  qed
qed

lemma version_related_lists:
  "related (lists_extend si)
     (\<lambda>s t. lists_extend si s t \<and> ver_major (si_version s) = ver_major (si_version t))
     (lists_extend si) (ProcessSystemNode_version node)"
  unfolding ProcessSystemNode_version_def
  by (rule related_in_member [OF version_inner_related]) (simp_all add: lists_extend_def)

lemma ProcessSystemNode_related_lists:
  assumes "lists_extend si s t"
  shows "rel_result (lists_extend si) (ProcessSystemNode ndebug node s) (ProcessSystemNode ndebug node t)"
proof -
  from relatedD [OF version_related_lists assms, of node]
  have h: "rel_outcome (\<lambda>s t. lists_extend si s t \<and> ver_major (si_version s) = ver_major (si_version t))
     (lists_extend si) (ProcessSystemNode_version node s) (ProcessSystemNode_version node t)" .
  show ?thesis
  proof (cases "ProcessSystemNode_version node s")
    case (Normal s1)
    with h obtain t1 where t1: "ProcessSystemNode_version node t = Normal t1" "lists_extend si s1 t1"
      "ver_major (si_version s1) = ver_major (si_version t1)"
      by (cases "ProcessSystemNode_version node t") auto
    show ?thesis
    proof (cases "CreateSystemInfoParser (ver_major (si_version t1))")
      case None
      with Normal t1 show ?thesis by (simp add: ProcessSystemNode_def)
    next
      case (Some parser)
      from relatedD [OF strategy_related_lists t1(2), of parser node]
      have "rel_outcome (lists_extend si) (lists_extend si)
          (ProcessSystemValueNode parser node s1) (ProcessSystemValueNode parser node t1)" .
      then show ?thesis using Normal t1 Some
        by (cases "ProcessSystemValueNode parser node s1"; cases "ProcessSystemValueNode parser node t1")
           (simp_all add: ProcessSystemNode_def)
    qed
  next
    case (Raised e s1)
    with h show ?thesis
      by (cases "ProcessSystemNode_version node t") (simp_all add: ProcessSystemNode_def)
  next
    case Undefined
    with h show ?thesis
      by (cases "ProcessSystemNode_version node t") (simp_all add: ProcessSystemNode_def)
  qed
qed

lemma Parse_related_lists:
  assumes "lists_extend si s t"
  shows "rel_result (lists_extend si) (Parse ndebug parse json s) (Parse ndebug parse json t)"
proof (cases "parse json")
  case None
  with assms show ?thesis by (simp add: Parse_def)
next
  case (Some doc)
  from ProcessSystemNode_related_lists [OF assms, of ndebug "system_subtree doc"]
  show ?thesis
    by (cases "ProcessSystemNode ndebug (system_subtree doc) s";
        cases "ProcessSystemNode ndebug (system_subtree doc) t")
       (simp_all add: Parse_via_subtree [of parse json doc, OF Some])
qed

subsection \<open>Members that a decode leaves alone\<close>

lemma strategy_keeps:
  assumes "\<And>m s. child node ''devdriver'' \<noteq> None \<Longrightarrow> f (s\<lparr>si_devdriver := m\<rparr>) = f s"
    "\<And>m s. child node ''driver'' \<noteq> None \<Longrightarrow> f (s\<lparr>si_driver := m\<rparr>) = f s"
    "\<And>m s. child node ''os'' \<noteq> None \<Longrightarrow> f (s\<lparr>si_os := m\<rparr>) = f s"
    "\<And>m s. child node ''cpus'' \<noteq> None \<Longrightarrow> f (s\<lparr>si_cpus := m\<rparr>) = f s"
    "\<And>m s. child node ''gpus'' \<noteq> None \<Longrightarrow> f (s\<lparr>si_gpus := m\<rparr>) = f s"
    "\<And>m s. child node ''processes'' \<noteq> None \<Longrightarrow> f (s\<lparr>si_processes := m\<rparr>) = f s"
  shows "preserves (\<lambda>s. f s = v) (ProcessSystemValueNode parser node)"
proof (cases parser)
  case SystemInfoParserV1
  have "preserves (\<lambda>s. f s = v) (V1_ProcessSystemValueNode node)"
    by (rule V1_keeps) (simp_all add: assms)
  with SystemInfoParserV1 show ?thesis by simp
next
  case SystemInfoParserV2
  have "preserves (\<lambda>s. f s = v) (V2_ProcessSystemValueNode node)"
    by (rule V2_keeps) (simp_all add: assms)
  with SystemInfoParserV2 show ?thesis by simp
qed

lemma ProcessSystemNode_keeps:
  assumes "\<And>m s. child node ''devdriver'' \<noteq> None \<Longrightarrow> f (s\<lparr>si_devdriver := m\<rparr>) = f s"
    "\<And>m s. child node ''driver'' \<noteq> None \<Longrightarrow> f (s\<lparr>si_driver := m\<rparr>) = f s"
    "\<And>m s. child node ''os'' \<noteq> None \<Longrightarrow> f (s\<lparr>si_os := m\<rparr>) = f s"
    "\<And>m s. child node ''cpus'' \<noteq> None \<Longrightarrow> f (s\<lparr>si_cpus := m\<rparr>) = f s"
    "\<And>m s. child node ''gpus'' \<noteq> None \<Longrightarrow> f (s\<lparr>si_gpus := m\<rparr>) = f s"
    "\<And>m s. child node ''processes'' \<noteq> None \<Longrightarrow> f (s\<lparr>si_processes := m\<rparr>) = f s"
    and ver: "\<And>m s. f (s\<lparr>si_version := m\<rparr>) = f s"
    and r: "record_of (ProcessSystemNode ndebug node si) = Some si'"
  shows "f si' = f si"
proof -
  have v: "holds_after (\<lambda>s. f s = f si) (ProcessSystemNode_version node si)"
    unfolding ProcessSystemNode_version_def
    by (rule preservesD [OF preserves_in_member]) (simp_all add: ver)
  show ?thesis
  proof (cases "ProcessSystemNode_version node si")
    case (Normal s)
    with v have s: "f s = f si" by simp
    show ?thesis
    proof (cases "CreateSystemInfoParser (ver_major (si_version s))")
      case None
      with Normal r s show ?thesis by (simp add: ProcessSystemNode_def split: if_splits)
    next
      case (Some parser)
      have "preserves (\<lambda>x. f x = f si) (ProcessSystemValueNode parser node)"
        by (rule strategy_keeps) (simp_all add: assms(1-6))
      from preservesD [OF this s] Normal Some r show ?thesis
        by (cases "ProcessSystemValueNode parser node s") (simp_all add: ProcessSystemNode_def)
    qed
  next
    case (Raised e s)
    with v r show ?thesis by (simp add: ProcessSystemNode_def)
  next
    case Undefined
    with r show ?thesis by (simp add: ProcessSystemNode_def)
  qed
qed

lemma Parse_record:
  assumes "parse json = Some doc" "Parse ndebug parse json si = Returned ok si'"
  shows "record_of (ProcessSystemNode ndebug (system_subtree doc) si) = Some si'"
  using assms(2)
  by (cases "ProcessSystemNode ndebug (system_subtree doc) si")
     (simp_all add: Parse_via_subtree [of parse json doc, OF assms(1)])

lemma ProcessSystemNode_version_kept:
  assumes "ProcessSystemNode_version node si = Normal s"
    and r: "record_of (ProcessSystemNode ndebug node si) = Some s'"
  shows "si_version s' = si_version s"
proof (cases "CreateSystemInfoParser (ver_major (si_version s))")
  case None
  with r assms show ?thesis by (simp add: ProcessSystemNode_def split: if_splits)
next
  case (Some parser)
  from preservesD [OF strategy_keeps_version [of "si_version s" parser node], of s]
  have "holds_after (\<lambda>x. si_version x = si_version s) (ProcessSystemValueNode parser node s)"
    by simp
  with r assms(1) Some show ?thesis
    by (cases "ProcessSystemValueNode parser node s") (simp_all add: ProcessSystemNode_def)
qed

lemma Parse_appends:
  assumes "Parse ndebug parse json si = Returned ok si'"
  shows "\<exists>d. Parse ndebug parse json zero_SystemInfo = Returned ok d
           \<and> si_cpus si' = si_cpus si @ si_cpus d \<and> si_gpus si' = si_gpus si @ si_gpus d
           \<and> si_processes si' = si_processes si @ si_processes d"
proof -
  have "lists_extend si si zero_SystemInfo"
    by (simp add: lists_extend_def zero_SystemInfo_def)
  from Parse_related_lists [OF this, of ndebug parse json] assms
  show ?thesis
    by (cases "Parse ndebug parse json zero_SystemInfo") (auto simp: lists_extend_def)
qed

lemma Parse_absent_members:
  assumes p: "parse json = Some doc" and r: "Parse ndebug parse json si = Returned ok si'"
  shows "(child (system_subtree doc) ''devdriver'' = None \<longrightarrow> si_devdriver si' = si_devdriver si)
       \<and> (child (system_subtree doc) ''driver'' = None \<longrightarrow> si_driver si' = si_driver si)
       \<and> (child (system_subtree doc) ''os'' = None \<longrightarrow> si_os si' = si_os si)
       \<and> (child (system_subtree doc) ''cpus'' = None \<longrightarrow> si_cpus si' = si_cpus si)
       \<and> (child (system_subtree doc) ''gpus'' = None \<longrightarrow> si_gpus si' = si_gpus si)
       \<and> (child (system_subtree doc) ''processes'' = None \<longrightarrow> si_processes si' = si_processes si)
       \<and> (child (system_subtree doc) ''version'' = None \<longrightarrow>
            si_version si' = (si_version si)\<lparr>ver_major := 1\<rparr>)"
proof -
  note rec = Parse_record [OF p r]
  have 1: "child (system_subtree doc) ''devdriver'' = None \<longrightarrow> si_devdriver si' = si_devdriver si"
    by (rule impI, rule ProcessSystemNode_keeps [where f = si_devdriver, OF _ _ _ _ _ _ _ rec]) simp_all
  have 2: "child (system_subtree doc) ''driver'' = None \<longrightarrow> si_driver si' = si_driver si"
    by (rule impI, rule ProcessSystemNode_keeps [where f = si_driver, OF _ _ _ _ _ _ _ rec]) simp_all
  have 3: "child (system_subtree doc) ''os'' = None \<longrightarrow> si_os si' = si_os si"
    by (rule impI, rule ProcessSystemNode_keeps [where f = si_os, OF _ _ _ _ _ _ _ rec]) simp_all
  have 4: "child (system_subtree doc) ''cpus'' = None \<longrightarrow> si_cpus si' = si_cpus si"
    by (rule impI, rule ProcessSystemNode_keeps [where f = si_cpus, OF _ _ _ _ _ _ _ rec]) simp_all
  have 5: "child (system_subtree doc) ''gpus'' = None \<longrightarrow> si_gpus si' = si_gpus si"
    by (rule impI, rule ProcessSystemNode_keeps [where f = si_gpus, OF _ _ _ _ _ _ _ rec]) simp_all
  have 6: "child (system_subtree doc) ''processes'' = None \<longrightarrow> si_processes si' = si_processes si"
    by (rule impI, rule ProcessSystemNode_keeps [where f = si_processes, OF _ _ _ _ _ _ _ rec]) simp_all
  have 7: "child (system_subtree doc) ''version'' = None \<longrightarrow>
            si_version si' = (si_version si)\<lparr>ver_major := 1\<rparr>"
  proof
    assume "child (system_subtree doc) ''version'' = None"
    from version_absent [OF this, of si] have
      "ProcessSystemNode_version (system_subtree doc) si
         = Normal (si\<lparr>si_version := (si_version si)\<lparr>ver_major := 1\<rparr>\<rparr>)" .
    from ProcessSystemNode_version_kept [OF this rec] show "si_version si' = (si_version si)\<lparr>ver_major := 1\<rparr>"
      by simp
  qed
  from 1 2 3 4 5 6 7 show ?thesis by blast
qed

subsection \<open>Version 2 over version 1\<close>

lemma run_steps_single: "run_steps [st] s = st s"
  by (cases "st s") simp_all

lemma V2_after_V1:
  "V2_ProcessSystemValueNode node s =
     (case V1_ProcessSystemValueNode node s of
        Normal s1 \<Rightarrow>
          if_node node ''processes'' (\<lambda>n.
            in_member si_processes (\<lambda>m s. s\<lparr>si_processes := m\<rparr>) (ProcessProcessListNode n)) s1
      | Raised e s1 \<Rightarrow> Raised e s1
      | Undefined \<Rightarrow> Undefined)"
  by (simp add: V2_ProcessSystemValueNode_def run_steps_single split: outcome.splits)

lemma V1_keeps_processes:
  "holds_after (\<lambda>s1. si_processes s1 = si_processes s) (V1_ProcessSystemValueNode node s)"
  by (rule preservesD [OF V1_keeps [where f = si_processes]]) simp_all

lemma map_outcome_comp:
  "map_outcome f (map_outcome g out) = map_outcome (\<lambda>x. f (g x)) out"
  by (cases out) simp_all

lemma V2_structure:
  "V2_ProcessSystemValueNode node s =
     (case V1_ProcessSystemValueNode node s of
        Normal s1 \<Rightarrow>
          (case child node ''processes'' of
             None \<Rightarrow> Normal s1
           | Some p \<Rightarrow>
               map_outcome (\<lambda>ps. s1\<lparr>si_processes := si_processes s @ ps\<rparr>) (ProcessProcessListNode p []))
      | Raised e s1 \<Rightarrow> Raised e s1
      | Undefined \<Rightarrow> Undefined)"
proof (cases "V1_ProcessSystemValueNode node s")
  case (Normal s1)
  with V1_keeps_processes [of s node] have k: "si_processes s1 = si_processes s" by simp
  have "ProcessProcessListNode p (si_processes s @ []) =
      map_outcome (\<lambda>ys. si_processes s @ ys) (ProcessProcessListNode p [])" for p
    unfolding ProcessProcessListNode_def by (rule push_each_append)
  then show ?thesis
    using Normal k
    by (simp add: V2_after_V1 if_node_def in_member_def map_outcome_comp split: option.splits)
qed (simp_all add: V2_after_V1)

lemma child_remove_member:
  "child (remove_member k node) k' = (if k' = k then None else child node k')"
proof (cases node)
  case (JObject ms)
  have "map_of (filter (\<lambda>kv. fst kv \<noteq> k) ms) k' = (if k' = k then None else map_of ms k')"
    by (induction ms) auto
  with JObject show ?thesis by simp
qed simp_all

lemma if_node_same_child:
  "child p k = child q k \<Longrightarrow> if_node p k body = if_node q k body"
  by (simp add: fun_eq_iff if_node_def)

lemma V1_same_children:
  assumes "\<forall>k\<in>set [''devdriver'', ''driver'', ''os'', ''cpus'', ''gpus'']. child p k = child q k"
  shows "V1_ProcessSystemValueNode p = V1_ProcessSystemValueNode q"
proof -
  have "if_node p k body = if_node q k body"
    if "k \<in> set [''devdriver'', ''driver'', ''os'', ''cpus'', ''gpus'']" for k and body :: "json \<Rightarrow> SystemInfo \<Rightarrow> SystemInfo outcome"
    using assms that by (intro if_node_same_child) blast
  then show ?thesis unfolding V1_ProcessSystemValueNode_def by simp
qed

lemma V1_remove_processes:
  "V1_ProcessSystemValueNode (remove_member ''processes'' node) = V1_ProcessSystemValueNode node"
  by (rule V1_same_children) (simp add: child_remove_member)

lemma V2_without_processes:
  "child node ''processes'' = None \<Longrightarrow> V2_ProcessSystemValueNode node s = V1_ProcessSystemValueNode node s"
  by (simp add: V2_structure split: outcome.splits)

lemma rel_outcome_refl: "rel_outcome (=) (=) out out"
  by (cases out) simp_all

lemma related_eq: "related (=) (=) (=) f"
  by (rule relatedI) (simp add: rel_outcome_refl)

lemma related_same_member:
  assumes "\<And>s t. R s t \<Longrightarrow> sel s = sel t" "\<And>m s t. R s t \<Longrightarrow> R (upd m s) (upd m t)"
  shows "related R R R (in_member sel upd f)"
  by (rule related_in_member [OF related_eq]) (simp_all add: assms)

lemma V1_related_same_but_version:
  "related same_but_version same_but_version same_but_version (V1_ProcessSystemValueNode node)"
  unfolding V1_ProcessSystemValueNode_def
proof (rule related_run_steps, goal_cases)
  case (1 st)
  let ?R = same_but_version
  have dd: "related ?R ?R ?R (if_node node ''devdriver'' (\<lambda>n.
          in_member si_devdriver (\<lambda>m s. s\<lparr>si_devdriver := m\<rparr>) (ProcessDevDriverNode n)))"
    by (intro related_if_node related_same_member) (simp_all add: same_but_version_def)
  have dr: "related ?R ?R ?R (if_node node ''driver'' (\<lambda>n.
          in_member si_driver (\<lambda>m s. s\<lparr>si_driver := m\<rparr>) (ProcessDriverNode n)))"
    by (intro related_if_node related_same_member) (simp_all add: same_but_version_def)
  have os: "related ?R ?R ?R (if_node node ''os'' (\<lambda>n.
          in_member si_os (\<lambda>m s. s\<lparr>si_os := m\<rparr>) (ProcessOsNode n)))"
    by (intro related_if_node related_same_member) (simp_all add: same_but_version_def)
  have cpus: "related ?R ?R ?R (if_node node ''cpus'' (\<lambda>n.
          in_member si_cpus (\<lambda>m s. s\<lparr>si_cpus := m\<rparr>) (ProcessCpusNode n)))"
    by (intro related_if_node related_same_member) (simp_all add: same_but_version_def)
  have gpus: "related ?R ?R ?R (if_node node ''gpus'' (\<lambda>n.
          in_member si_gpus (\<lambda>m s. s\<lparr>si_gpus := m\<rparr>) (ProcessGpusNodes n)))"
    by (intro related_if_node related_same_member) (simp_all add: same_but_version_def)
  from 1 dd dr os cpus gpus show ?case by auto
qed

lemma process_read:
  "described_process p = Some x \<Longrightarrow> ProcessProcessListNode_process p = Normal x"
  by (simp add: described_process_def ProcessProcessListNode_process_def assign_def zero_Process_def
        split: res.splits)

lemma process_list_read:
  "map described_process its = map Some procs \<Longrightarrow>
   push_each ProcessProcessListNode_process its vec = Normal (vec @ procs)"
proof (induction its arbitrary: vec procs)
  case Nil
  then show ?case by simp
next
  case (Cons a its)
  then obtain x rest where x: "procs = x # rest" "described_process a = Some x"
      "map described_process its = map Some rest"
    by (cases procs) auto
  from Cons.IH [OF x(3), of "vec @ [x]"] process_read [OF x(2)] x(1) show ?case by simp
qed

lemma V2_reads_processes:
  assumes "V1_ProcessSystemValueNode node s = Normal s1" "child node ''processes'' = Some pl"
    and "map described_process (elements pl) = map Some procs"
  shows "V2_ProcessSystemValueNode node s = Normal (s1\<lparr>si_processes := si_processes s @ procs\<rparr>)"
  using assms(1,2) process_list_read [OF assms(3), of "[]"]
  by (simp add: V2_structure ProcessProcessListNode_def)

lemma version2_without_processes_as_version1:
  assumes same: "\<forall>k\<in>set [''devdriver'', ''driver'', ''os'', ''cpus'', ''gpus'']. child n2 k = child n1 k"
    and np: "child n2 ''processes'' = None"
    and v2: "ProcessSystemNode_version n2 si = Normal s2" "ver_major (si_version s2) = 2"
    and v1: "ProcessSystemNode_version n1 si = Normal s1" "ver_major (si_version s1) = 1"
  shows "rel_result
           (\<lambda>r2 r1. same_but_version r2 r1 \<and> si_version r2 = si_version s2 \<and> si_version r1 = si_version s1)
           (ProcessSystemNode ndebug n2 si) (ProcessSystemNode ndebug n1 si)"
proof -
  from version_step_frame [of si n2] v2(1) have "s2 = si\<lparr>si_version := si_version s2\<rparr>" by simp
  moreover from version_step_frame [of si n1] v1(1) have "s1 = si\<lparr>si_version := si_version s1\<rparr>" by simp
  ultimately have r: "same_but_version s2 s1"
    unfolding same_but_version_def
    by (metis SystemInfo.select_convs(2-7) SystemInfo.surjective SystemInfo.update_convs(1))
  have eq: "V2_ProcessSystemValueNode n2 s2 = V1_ProcessSystemValueNode n1 s2"
    using V2_without_processes [OF np, of s2] V1_same_children [OF same] by simp
  from relatedD [OF V1_related_same_but_version r, of n1]
  have a: "rel_outcome same_but_version same_but_version
          (V1_ProcessSystemValueNode n1 s2) (V1_ProcessSystemValueNode n1 s1)" .
  have b: "holds_after (\<lambda>x. si_version x = si_version s2) (V1_ProcessSystemValueNode n1 s2)"
    by (rule preservesD [OF V1_keeps [where f = si_version]]) simp_all
  have c: "holds_after (\<lambda>x. si_version x = si_version s1) (V1_ProcessSystemValueNode n1 s1)"
    by (rule preservesD [OF V1_keeps [where f = si_version]]) simp_all
  from eq a b c show ?thesis
    using v2 v1
    by (cases "V1_ProcessSystemValueNode n1 s2"; cases "V1_ProcessSystemValueNode n1 s1")
       (simp_all add: ProcessSystemNode_def CreateSystemInfoParser_def)
qed

lemma rel_result_Parse:
  assumes "parse j2 = Some d2" "parse j1 = Some d1"
    and "rel_result R (ProcessSystemNode ndebug (system_subtree d2) s) (ProcessSystemNode ndebug (system_subtree d1) t)"
  shows "rel_result R (Parse ndebug parse j2 s) (Parse ndebug parse j1 t)"
  using assms(3)
  by (cases "ProcessSystemNode ndebug (system_subtree d2) s"; cases "ProcessSystemNode ndebug (system_subtree d1) t")
     (simp_all add: Parse_via_subtree [of parse j2 d2, OF assms(1)]
        Parse_via_subtree [of parse j1 d1, OF assms(2)])

section \<open>The claims\<close>

text \<open>
  C1. The packaging minor is meant to be the run of digits after the first \<open>.\<close> of the
  packaging version. The code reads it only when some character that is no digit follows
  that run: when the digits run to the end of the string (\<open>23.40\<close>),
  \<^verbatim>\<open>find_first_not_of\<close> answers \<^verbatim>\<open>npos\<close>, the function returns early, and the minor keeps
  the value it had before, whatever the digits are.
\<close>

theorem packaging_minor_kept_when_digits_reach_end:
  assumes "child driver_node ''packagingVersion'' = Some (JString (a @ CHR ''.'' # ds))"
    and "CHR ''.'' \<notin> set a"
    and "\<forall>c\<in>set ds. isdigit c"
    and "ProcessDriverNode driver_node driver = Normal driver'"
  shows "drv_packaging_version_minor driver' = drv_packaging_version_minor driver"
proof -
  from assms(4) obtain d where d: "ProcessDriverNode_versions d = Normal driver'"
    "drv_packaging_version d = a @ CHR ''.'' # ds"
    "drv_packaging_version_minor d = drv_packaging_version_minor driver"
    using assms(1)
    by (auto simp: ProcessDriverNode_def assign_def Get_def split: res.splits outcome.splits)
  from versions_minor_kept [OF d(2) assms(2,3) d(1)] d(3) show ?thesis by simp
qed

text \<open>At \<open>23.40\<close> on a fresh record: major 23, and the minor still 0, not 40.\<close>

theorem packaging_minor_kept_when_digits_reach_end_witness:
  "ProcessDriverNode (JObject [(''packagingVersion'', JString ''23.40'')]) zero_DriverInfo
     = Normal (zero_DriverInfo\<lparr>drv_packaging_version := ''23.40'', drv_packaging_version_major := 23\<rparr>)
   \<and> drv_packaging_version_minor
        (zero_DriverInfo\<lparr>drv_packaging_version := ''23.40'', drv_packaging_version_major := 23\<rparr>)
       = drv_packaging_version_minor zero_DriverInfo
   \<and> drv_packaging_version_minor zero_DriverInfo = 0"
proof -
  have e: "ProcessDriverNode (JObject [(''packagingVersion'', JString ''23.40'')]) zero_DriverInfo
     = Normal (zero_DriverInfo\<lparr>drv_packaging_version := ''23.40'', drv_packaging_version_major := 23\<rparr>)"
    by code_simp
  have c: "child (JObject [(''packagingVersion'', JString ''23.40'')]) ''packagingVersion''
      = Some (JString (''23'' @ CHR ''.'' # ''40''))" by simp
  have a: "CHR ''.'' \<notin> set ''23''" by simp
  have d: "\<forall>c\<in>set ''40''. isdigit c" by (simp add: isdigit_def)
  from packaging_minor_kept_when_digits_reach_end [OF c a d e] e show ?thesis
    by (simp add: zero_DriverInfo_def)
qed

text \<open>
  C2, as the code has it. The LUID decode first zeroes the eight bytes; then every slice of
  up to two characters at an even offset of the string is read by \<^verbatim>\<open>strtol\<close> in base 16
  and its low byte is stored at half the offset. The last slice of a string of odd length
  is its single last character: it is read like the others, not dropped. \<^verbatim>\<open>strtol\<close>
  reads the longest prefix of the slice that is a number, so \<open>1z\<close> reads as 1, and a
  slice that begins with a character that is no hexadecimal digit, white space or sign
  reads as 0. \<open>0102030405060708\<close> decodes to the bytes 1 to 8. For a node that holds only
  the string, of at most 16 characters, the function returns normally whatever the
  characters are.
\<close>

theorem luid_decodes_slice_by_slice:
  "(Get get_string node ''luid'' '''' = Val s \<longrightarrow>
      ProcessAsicIdInfoNode node info = Normal info' \<longrightarrow> id_luid info' = luid_bytes s)
   \<and> (length t \<le> 16 \<longrightarrow>
        ProcessAsicIdInfoNode (JObject [(''luid'', JString t)]) info =
          Normal (info\<lparr>id_gfx_engine := 0, id_family := 0, id_e_rev := 0, id_revision := 0,
                    id_device := 0, id_subsystem := 0, id_vendor := 0, id_luid := luid_bytes t\<rparr>))
   \<and> luid_bytes ''0102030405060708'' = [1, 2, 3, 4, 5, 6, 7, 8]
   \<and> (\<not> isxdigit c \<longrightarrow> \<not> isspace c \<longrightarrow> c \<noteq> CHR ''-'' \<longrightarrow> c \<noteq> CHR ''+'' \<longrightarrow> strtol16 (c # r) = 0)"
proof -
  have 1: "Get get_string node ''luid'' '''' = Val s \<longrightarrow>
      ProcessAsicIdInfoNode node info = Normal info' \<longrightarrow> id_luid info' = luid_bytes s"
    using AsicIdInfo_luid_Normal by blast
  have 2: "length t \<le> 16 \<longrightarrow>
        ProcessAsicIdInfoNode (JObject [(''luid'', JString t)]) info =
          Normal (info\<lparr>id_gfx_engine := 0, id_family := 0, id_e_rev := 0, id_revision := 0,
                    id_device := 0, id_subsystem := 0, id_vendor := 0, id_luid := luid_bytes t\<rparr>)"
    by (simp add: AsicIdInfo_only_luid luid_loop_bytes)
  have 3: "luid_bytes ''0102030405060708'' = [1, 2, 3, 4, 5, 6, 7, 8]"
    by code_simp
  have 4: "\<not> isxdigit c \<longrightarrow> \<not> isspace c \<longrightarrow> c \<noteq> CHR ''-'' \<longrightarrow> c \<noteq> CHR ''+'' \<longrightarrow> strtol16 (c # r) = 0"
    using strtol16_no_prefix by blast
  from 1 2 3 4 show ?thesis by blast
qed

text \<open>
  At \<open>1z\<close>: the first byte is 1, the others 0; and \<open>zz\<close> reads as 0.
\<close>

theorem luid_decodes_slice_by_slice_witness:
  "ProcessAsicIdInfoNode (JObject [(''luid'', JString ''1z'')]) zero_IdInfo =
     Normal (zero_IdInfo\<lparr>id_luid := [1, 0, 0, 0, 0, 0, 0, 0]\<rparr>)
   \<and> id_luid (zero_IdInfo\<lparr>id_luid := [1, 0, 0, 0, 0, 0, 0, 0]\<rparr>) = luid_bytes ''1z''
   \<and> strtol16 ''zz'' = 0"
proof -
  let ?node = "JObject [(''luid'', JString ''1z'')]"
  let ?r = "zero_IdInfo\<lparr>id_luid := [1, 0, 0, 0, 0, 0, 0, 0]\<rparr>"
  note inst = luid_decodes_slice_by_slice [of ?node "''1z''" zero_IdInfo ?r "''1z''" "CHR ''z''" "''z''"]
  have b: "luid_bytes ''1z'' = [1, 0, 0, 0, 0, 0, 0, 0]" by code_simp
  have l: "length ''1z'' \<le> 16" by simp
  have z: "\<not> isxdigit CHR ''z''" "\<not> isspace CHR ''z''" "CHR ''z'' \<noteq> CHR ''-''" "CHR ''z'' \<noteq> CHR ''+''"
    by (simp_all add: isxdigit_def isspace_def)
  have g: "Get get_string ?node ''luid'' '''' = Val ''1z''" by (simp add: Get_def)
  from inst l b have e: "ProcessAsicIdInfoNode ?node zero_IdInfo = Normal ?r"
    by (simp add: zero_IdInfo_def)
  from inst g e have "id_luid ?r = luid_bytes ''1z''" by blast
  moreover from inst z have "strtol16 ''zz'' = 0" by blast
  ultimately show ?thesis using e by blast
qed

text \<open>
  The claim as stated fails: the odd-length \<open>123\<close> decodes to the bytes \<open>0x12, 0x03\<close> and
  the non-hexadecimal \<open>1z\<close> to the byte 1, neither to eight zero bytes.
\<close>

theorem odd_length_luid_is_not_zeroed:
  "ProcessAsicIdInfoNode (JObject [(''luid'', JString ''123'')]) zero_IdInfo
     = Normal (zero_IdInfo\<lparr>id_luid := [18, 3, 0, 0, 0, 0, 0, 0]\<rparr>)
   \<and> [18, 3, 0, 0, 0, 0, 0, 0] \<noteq> replicate 8 (0 :: 8 word)
   \<and> ProcessAsicIdInfoNode (JObject [(''luid'', JString ''1z'')]) zero_IdInfo
     = Normal (zero_IdInfo\<lparr>id_luid := [1, 0, 0, 0, 0, 0, 0, 0]\<rparr>)
   \<and> [1, 0, 0, 0, 0, 0, 0, 0] \<noteq> replicate 8 (0 :: 8 word)"
  by code_simp




text \<open>
  C4. A CU mask that is not an array of arrays of unsigned integers leaves no row behind.
  When the node is an array, \<^verbatim>\<open>clear()\<close> empties the whole matrix, the rows the structure
  held before included; when the node is no array the matrix is left as it was, which is
  empty for the value-initialised GPU the decoder builds. So the mask of a decoded GPU
  whose \<open>cuMask\<close> has a violation is empty, however the decode of that GPU ends. The
  mask \<open>[[1,2],[3,"x"]]\<close> has a violation.
\<close>

theorem cu_mask_violation_discards_matrix:
  "(cu_mask_violation node \<longrightarrow> asic_cu_mask a = [] \<longrightarrow> ProcessCuMaskNode node a = Normal a)
   \<and> (cu_mask_violation node \<longrightarrow> is_array node \<longrightarrow>
        ProcessCuMaskNode node a = Normal (a\<lparr>asic_cu_mask := []\<rparr>))
   \<and> (cu_mask_violation node \<longrightarrow> child gpu_node ''asic'' = Some asic_root \<longrightarrow>
        child asic_root ''cuMask'' = Some node \<longrightarrow>
        holds_after (\<lambda>gpu. asic_cu_mask (gpu_asic gpu) = []) (ProcessGpusNodes_gpu gpu_node))
   \<and> cu_mask_violation (JArray [JArray [JUInt 1, JUInt 2], JArray [JUInt 3, JString ''x'']])"
proof -
  have 1: "cu_mask_violation node \<longrightarrow> asic_cu_mask a = [] \<longrightarrow> ProcessCuMaskNode node a = Normal a"
    by (simp add: CuMaskNode_violation)
  have 2: "cu_mask_violation node \<longrightarrow> is_array node \<longrightarrow>
        ProcessCuMaskNode node a = Normal (a\<lparr>asic_cu_mask := []\<rparr>)"
    by (simp add: CuMaskNode_violation)
  have 3: "cu_mask_violation node \<longrightarrow> child gpu_node ''asic'' = Some asic_root \<longrightarrow>
        child asic_root ''cuMask'' = Some node \<longrightarrow>
        holds_after (\<lambda>gpu. asic_cu_mask (gpu_asic gpu) = []) (ProcessGpusNodes_gpu gpu_node)"
    using gpu_cu_mask_empty by blast
  have 4: "cu_mask_violation (JArray [JArray [JUInt 1, JUInt 2], JArray [JUInt 3, JString ''x'']])"
    by (simp add: cu_mask_violation_def cu_mask_row_ok_def elements_def)
  from 1 2 3 4 show ?thesis by blast
qed

text \<open>
  At \<open>[[1,2],[3,"x"]]\<close>: an empty matrix, from an empty one and from one that held a
  row, and in a GPU decoded from a node whose \<open>asic\<close> holds that mask.
\<close>

theorem cu_mask_violation_discards_matrix_witness:
  "ProcessCuMaskNode (JArray [JArray [JUInt 1, JUInt 2], JArray [JUInt 3, JString ''x'']]) zero_AsicInfo
     = Normal zero_AsicInfo
   \<and> asic_cu_mask zero_AsicInfo = []
   \<and> ProcessCuMaskNode (JArray [JArray [JUInt 1, JUInt 2], JArray [JUInt 3, JString ''x'']])
        (zero_AsicInfo\<lparr>asic_cu_mask := [[7]]\<rparr>)
     = Normal zero_AsicInfo
   \<and> holds_after (\<lambda>gpu. asic_cu_mask (gpu_asic gpu) = [])
        (ProcessGpusNodes_gpu (JObject [(''asic'', JObject [(''numCus'', JUInt 4),
           (''cuMask'', JArray [JArray [JUInt 1, JUInt 2], JArray [JUInt 3, JString ''x'']])])]))"
proof -
  let ?m = "JArray [JArray [JUInt 1, JUInt 2], JArray [JUInt 3, JString ''x'']]"
  let ?asic = "JObject [(''numCus'', JUInt 4), (''cuMask'', ?m)]"
  let ?gpu = "JObject [(''asic'', ?asic)]"
  note t1 = cu_mask_violation_discards_matrix [of ?m zero_AsicInfo ?gpu ?asic]
  note t2 = cu_mask_violation_discards_matrix [of ?m "zero_AsicInfo\<lparr>asic_cu_mask := [[7]]\<rparr>"]
  have z: "asic_cu_mask zero_AsicInfo = []" by (simp add: zero_AsicInfo_def)
  have c: "child ?gpu ''asic'' = Some ?asic" "child ?asic ''cuMask'' = Some ?m" by simp_all
  from t1 z have 1: "ProcessCuMaskNode ?m zero_AsicInfo = Normal zero_AsicInfo" by blast
  from t2 have 2: "ProcessCuMaskNode ?m (zero_AsicInfo\<lparr>asic_cu_mask := [[7]]\<rparr>) = Normal zero_AsicInfo"
    by (simp add: zero_AsicInfo_def)
  from t1 c have 3: "holds_after (\<lambda>gpu. asic_cu_mask (gpu_asic gpu) = []) (ProcessGpusNodes_gpu ?gpu)"
    by blast
  from 1 z 2 3 show ?thesis by blast
qed

text \<open>
  C5, as the code has it. The strategy of version 2 runs the strategy of version 1 and
  then, if the document has a member \<open>processes\<close>, appends the processes read from it,
  in the order of the document: each node of the list gives one process, with its
  \<open>name\<close>, \<open>path\<close> and \<open>processId\<close>. The result is the result of version 1 with
  nothing but the process list changed, and an exception in version 1 ends version 2
  the same way. Version 1 never touches the process list. So on a document without
  \<open>processes\<close>, and on any document with that member removed, the strategy of
  version 2 does exactly what the strategy of version 1 does on the document. For
  documents as a whole: a document of version 2 without \<open>processes\<close> and a document
  of version 1 with the same five members decode to the same flag and to records that
  are equal in every field but the version, which in each record is the version of its
  own document, so major 2 in the one and major 1 in the other.
\<close>

theorem V2_is_V1_then_reads_processes:
  "V2_ProcessSystemValueNode node s =
     (case V1_ProcessSystemValueNode node s of
        Normal s1 \<Rightarrow>
          (case child node ''processes'' of
             None \<Rightarrow> Normal s1
           | Some p \<Rightarrow>
               map_outcome (\<lambda>ps. s1\<lparr>si_processes := si_processes s @ ps\<rparr>) (ProcessProcessListNode p []))
      | Raised e s1 \<Rightarrow> Raised e s1
      | Undefined \<Rightarrow> Undefined)
   \<and> (V1_ProcessSystemValueNode node s = Normal s1 \<longrightarrow> child node ''processes'' = Some pl \<longrightarrow>
        map described_process (elements pl) = map Some procs \<longrightarrow>
        V2_ProcessSystemValueNode node s = Normal (s1\<lparr>si_processes := si_processes s @ procs\<rparr>))
   \<and> holds_after (\<lambda>s1. si_processes s1 = si_processes s) (V1_ProcessSystemValueNode node s)
   \<and> (child node ''processes'' = None \<longrightarrow>
        ProcessSystemValueNode SystemInfoParserV2 node s = ProcessSystemValueNode SystemInfoParserV1 node s)
   \<and> ProcessSystemValueNode SystemInfoParserV2 (remove_member ''processes'' node) s
       = ProcessSystemValueNode SystemInfoParserV1 node s
   \<and> CreateSystemInfoParser 1 = Some SystemInfoParserV1
   \<and> CreateSystemInfoParser 2 = Some SystemInfoParserV2
   \<and> (parse j2 = Some d2 \<longrightarrow> parse j1 = Some d1 \<longrightarrow>
        (\<forall>k\<in>set [''devdriver'', ''driver'', ''os'', ''cpus'', ''gpus''].
            child (system_subtree d2) k = child (system_subtree d1) k) \<longrightarrow>
        child (system_subtree d2) ''processes'' = None \<longrightarrow>
        ProcessSystemNode_version (system_subtree d2) si = Normal t2 \<longrightarrow> ver_major (si_version t2) = 2 \<longrightarrow>
        ProcessSystemNode_version (system_subtree d1) si = Normal t1 \<longrightarrow> ver_major (si_version t1) = 1 \<longrightarrow>
        rel_result
          (\<lambda>r2 r1. same_but_version r2 r1 \<and> si_version r2 = si_version t2 \<and> si_version r1 = si_version t1)
          (Parse ndebug parse j2 si) (Parse ndebug parse j1 si))"
proof -
  have 2: "V1_ProcessSystemValueNode node s = Normal s1 \<longrightarrow> child node ''processes'' = Some pl \<longrightarrow>
        map described_process (elements pl) = map Some procs \<longrightarrow>
        V2_ProcessSystemValueNode node s = Normal (s1\<lparr>si_processes := si_processes s @ procs\<rparr>)"
    using V2_reads_processes [of node s s1 pl procs] by blast
  have 3: "child node ''processes'' = None \<longrightarrow>
        ProcessSystemValueNode SystemInfoParserV2 node s = ProcessSystemValueNode SystemInfoParserV1 node s"
    by (simp add: V2_without_processes)
  have 4: "ProcessSystemValueNode SystemInfoParserV2 (remove_member ''processes'' node) s
       = ProcessSystemValueNode SystemInfoParserV1 node s"
    using V2_without_processes [of "remove_member ''processes'' node" s]
    by (simp add: child_remove_member V1_remove_processes)
  have 5: "CreateSystemInfoParser 1 = Some SystemInfoParserV1"
    "CreateSystemInfoParser 2 = Some SystemInfoParserV2"
    by (simp_all add: CreateSystemInfoParser_def)
  have 6: "parse j2 = Some d2 \<longrightarrow> parse j1 = Some d1 \<longrightarrow>
        (\<forall>k\<in>set [''devdriver'', ''driver'', ''os'', ''cpus'', ''gpus''].
            child (system_subtree d2) k = child (system_subtree d1) k) \<longrightarrow>
        child (system_subtree d2) ''processes'' = None \<longrightarrow>
        ProcessSystemNode_version (system_subtree d2) si = Normal t2 \<longrightarrow> ver_major (si_version t2) = 2 \<longrightarrow>
        ProcessSystemNode_version (system_subtree d1) si = Normal t1 \<longrightarrow> ver_major (si_version t1) = 1 \<longrightarrow>
        rel_result
          (\<lambda>r2 r1. same_but_version r2 r1 \<and> si_version r2 = si_version t2 \<and> si_version r1 = si_version t1)
          (Parse ndebug parse j2 si) (Parse ndebug parse j1 si)"
    using rel_result_Parse [of parse j2 d2 j1 d1 _ ndebug si si]
      version2_without_processes_as_version1 [of "system_subtree d2" "system_subtree d1" si t2 t1 ndebug]
    by blast
  from V2_structure [of node s] V1_keeps_processes [of s node] 2 3 4 5 6 show ?thesis by blast
qed

text \<open>
  At a document with one CPU and two processes, the second an empty node; at the same
  document with the processes removed; and at the content without processes as a
  document of version 2 and as a document of version 1.
\<close>

theorem V2_is_V1_then_reads_processes_witness:
  \<open>V2_ProcessSystemValueNode
      (JObject [(''cpus'', JArray [JObject []]),
                (''processes'',
                 JArray [JObject [(''name'', JString ''a.exe''), (''path'', JString ''/bin/a.exe''),
                                  (''processId'', JUInt 7)],
                         JObject []])])
      zero_SystemInfo
    = Normal (zero_SystemInfo\<lparr>si_cpus := [zero_CpuInfo],
                si_processes := [\<lparr>proc_name = ''a.exe'', proc_path = ''/bin/a.exe'', proc_id = 7\<rparr>,
                                 \<lparr>proc_name = '''', proc_path = '''', proc_id = 0\<rparr>]\<rparr>)
   \<and> ProcessSystemValueNode SystemInfoParserV2
      (remove_member ''processes''
        (JObject [(''cpus'', JArray [JObject []]),
                  (''processes'',
                   JArray [JObject [(''name'', JString ''a.exe''), (''path'', JString ''/bin/a.exe''),
                                    (''processId'', JUInt 7)],
                           JObject []])]))
      zero_SystemInfo
    = Normal (zero_SystemInfo\<lparr>si_cpus := [zero_CpuInfo]\<rparr>)
   \<and> ProcessSystemValueNode SystemInfoParserV2 (JObject [(''cpus'', JArray [JObject []])]) zero_SystemInfo
    = ProcessSystemValueNode SystemInfoParserV1 (JObject [(''cpus'', JArray [JObject []])]) zero_SystemInfo
   \<and> Parse True
        [''{"version": 2, "cpus": [{}]}'' \<mapsto> JObject [(''version'', JUInt 2), (''cpus'', JArray [JObject []])],
         ''{"version": 1, "cpus": [{}]}'' \<mapsto> JObject [(''version'', JUInt 1), (''cpus'', JArray [JObject []])]]
        ''{"version": 2, "cpus": [{}]}'' zero_SystemInfo
      = Returned True (zero_SystemInfo\<lparr>si_version := zero_Version\<lparr>ver_major := 2\<rparr>,
                                       si_cpus := [zero_CpuInfo]\<rparr>)
   \<and> Parse True
        [''{"version": 2, "cpus": [{}]}'' \<mapsto> JObject [(''version'', JUInt 2), (''cpus'', JArray [JObject []])],
         ''{"version": 1, "cpus": [{}]}'' \<mapsto> JObject [(''version'', JUInt 1), (''cpus'', JArray [JObject []])]]
        ''{"version": 1, "cpus": [{}]}'' zero_SystemInfo
      = Returned True (zero_SystemInfo\<lparr>si_version := zero_Version\<lparr>ver_major := 1\<rparr>,
                                       si_cpus := [zero_CpuInfo]\<rparr>)
   \<and> same_but_version
        (zero_SystemInfo\<lparr>si_version := zero_Version\<lparr>ver_major := 2\<rparr>, si_cpus := [zero_CpuInfo]\<rparr>)
        (zero_SystemInfo\<lparr>si_version := zero_Version\<lparr>ver_major := 1\<rparr>, si_cpus := [zero_CpuInfo]\<rparr>)\<close>
proof -
  let ?pl = "JArray [JObject [(''name'', JString ''a.exe''), (''path'', JString ''/bin/a.exe''),
                              (''processId'', JUInt 7)],
                     JObject []]"
  let ?node = "JObject [(''cpus'', JArray [JObject []]), (''processes'', ?pl)]"
  let ?bare = "JObject [(''cpus'', JArray [JObject []])]"
  let ?procs = "[\<lparr>proc_name = ''a.exe'', proc_path = ''/bin/a.exe'', proc_id = 7\<rparr>,
                 \<lparr>proc_name = '''', proc_path = '''', proc_id = 0\<rparr>]"
  let ?c = "zero_SystemInfo\<lparr>si_cpus := [zero_CpuInfo]\<rparr>"
  let ?j2 = \<open>''{"version": 2, "cpus": [{}]}''\<close>
  let ?j1 = \<open>''{"version": 1, "cpus": [{}]}''\<close>
  let ?d2 = "JObject [(''version'', JUInt 2), (''cpus'', JArray [JObject []])]"
  let ?d1 = "JObject [(''version'', JUInt 1), (''cpus'', JArray [JObject []])]"
  let ?parse = "[?j2 \<mapsto> ?d2, ?j1 \<mapsto> ?d1]"
  let ?t2 = "zero_SystemInfo\<lparr>si_version := zero_Version\<lparr>ver_major := 2\<rparr>\<rparr>"
  let ?t1 = "zero_SystemInfo\<lparr>si_version := zero_Version\<lparr>ver_major := 1\<rparr>\<rparr>"
  let ?r2 = "zero_SystemInfo\<lparr>si_version := zero_Version\<lparr>ver_major := 2\<rparr>, si_cpus := [zero_CpuInfo]\<rparr>"
  let ?r1 = "zero_SystemInfo\<lparr>si_version := zero_Version\<lparr>ver_major := 1\<rparr>, si_cpus := [zero_CpuInfo]\<rparr>"
  note inst = V2_is_V1_then_reads_processes
                [where node = ?node and s = zero_SystemInfo and ?s1.0 = ?c and pl = ?pl and procs = ?procs
                   and parse = ?parse and ?j2.0 = ?j2 and ?d2.0 = ?d2 and ?j1.0 = ?j1 and ?d1.0 = ?d1
                   and si = zero_SystemInfo and ?t2.0 = ?t2 and ?t1.0 = ?t1 and ndebug = True]
  note bare = V2_is_V1_then_reads_processes [where node = ?bare and s = zero_SystemInfo]
  have v1: "V1_ProcessSystemValueNode ?node zero_SystemInfo = Normal ?c" by code_simp
  have v1': "ProcessSystemValueNode SystemInfoParserV1 ?node zero_SystemInfo = Normal ?c" by code_simp
  have pl: "child ?node ''processes'' = Some ?pl" by simp
  have ps: "map described_process (elements ?pl) = map Some ?procs" by code_simp
  have z: "si_processes zero_SystemInfo = []" by (simp add: zero_SystemInfo_def)
  from inst v1 pl ps
  have "V2_ProcessSystemValueNode ?node zero_SystemInfo
      = Normal (?c\<lparr>si_processes := si_processes zero_SystemInfo @ ?procs\<rparr>)"
    by blast
  then have a: "V2_ProcessSystemValueNode ?node zero_SystemInfo = Normal (?c\<lparr>si_processes := ?procs\<rparr>)"
    unfolding z by simp
  from inst v1' have b: "ProcessSystemValueNode SystemInfoParserV2 (remove_member ''processes'' ?node)
      zero_SystemInfo = Normal ?c"
    by simp
  have np: "child ?bare ''processes'' = None" by simp
  from bare np have c: "ProcessSystemValueNode SystemInfoParserV2 ?bare zero_SystemInfo
      = ProcessSystemValueNode SystemInfoParserV1 ?bare zero_SystemInfo"
    by blast
  have p: "?parse ?j2 = Some ?d2" "?parse ?j1 = Some ?d1" by simp_all
  have k: "\<forall>k\<in>set [''devdriver'', ''driver'', ''os'', ''cpus'', ''gpus''].
            child (system_subtree ?d2) k = child (system_subtree ?d1) k"
    "child (system_subtree ?d2) ''processes'' = None"
    by (simp_all add: system_subtree_def)
  have r2: "ProcessSystemNode_version (system_subtree ?d2) zero_SystemInfo = Normal ?t2" by code_simp
  have r1: "ProcessSystemNode_version (system_subtree ?d1) zero_SystemInfo = Normal ?t1" by code_simp
  have m: "ver_major (si_version ?t2) = 2" "ver_major (si_version ?t1) = 1" by simp_all
  have e2: "Parse True ?parse ?j2 zero_SystemInfo = Returned True ?r2" by code_simp
  have e1: "Parse True ?parse ?j1 zero_SystemInfo = Returned True ?r1" by code_simp
  from inst p k r2 r1 m
  have "rel_result
          (\<lambda>r2 r1. same_but_version r2 r1 \<and> si_version r2 = si_version ?t2 \<and> si_version r1 = si_version ?t1)
          (Parse True ?parse ?j2 zero_SystemInfo) (Parse True ?parse ?j1 zero_SystemInfo)"
    by blast
  then have d: "same_but_version ?r2 ?r1" unfolding e2 e1 by simp
  from a b c e2 e1 d show ?thesis by blast
qed

text \<open>
  The claim as stated fails: the records are not indistinguishable. A document of
  version 2 with one CPU and no processes, and the same content as a document of
  version 1, both decode with success, in every build, and the two records differ: the
  major version of the one is 2, of the other 1.
\<close>

theorem version_2_and_version_1_records_differ:
  \<open>Parse True [''{"version": 2, "cpus": [{}]}''
                 \<mapsto> JObject [(''version'', JUInt 2), (''cpus'', JArray [JObject []])]]
        ''{"version": 2, "cpus": [{}]}'' zero_SystemInfo
     = Returned True (zero_SystemInfo\<lparr>si_version := zero_Version\<lparr>ver_major := 2\<rparr>,
                                      si_cpus := [zero_CpuInfo]\<rparr>)
   \<and> Parse True [''{"version": 1, "cpus": [{}]}''
                 \<mapsto> JObject [(''version'', JUInt 1), (''cpus'', JArray [JObject []])]]
        ''{"version": 1, "cpus": [{}]}'' zero_SystemInfo
     = Returned True (zero_SystemInfo\<lparr>si_version := zero_Version\<lparr>ver_major := 1\<rparr>,
                                      si_cpus := [zero_CpuInfo]\<rparr>)
   \<and> Parse False [''{"version": 2, "cpus": [{}]}''
                 \<mapsto> JObject [(''version'', JUInt 2), (''cpus'', JArray [JObject []])]]
        ''{"version": 2, "cpus": [{}]}'' zero_SystemInfo
     = Returned True (zero_SystemInfo\<lparr>si_version := zero_Version\<lparr>ver_major := 2\<rparr>,
                                      si_cpus := [zero_CpuInfo]\<rparr>)
   \<and> Parse False [''{"version": 1, "cpus": [{}]}''
                 \<mapsto> JObject [(''version'', JUInt 1), (''cpus'', JArray [JObject []])]]
        ''{"version": 1, "cpus": [{}]}'' zero_SystemInfo
     = Returned True (zero_SystemInfo\<lparr>si_version := zero_Version\<lparr>ver_major := 1\<rparr>,
                                      si_cpus := [zero_CpuInfo]\<rparr>)
   \<and> zero_SystemInfo\<lparr>si_version := zero_Version\<lparr>ver_major := 2\<rparr>, si_cpus := [zero_CpuInfo]\<rparr>
       \<noteq> zero_SystemInfo\<lparr>si_version := zero_Version\<lparr>ver_major := 1\<rparr>, si_cpus := [zero_CpuInfo]\<rparr>\<close>
  by code_simp

text \<open>
  C6. The version is resolved in one of two ways. When the subtree has a member
  \<open>version\<close> that is an object, major, minor, patch and build are read from it, a
  missing part giving 2 for major and 0 for the others. Otherwise only major is written:
  the number of a scalar \<open>version\<close>, or 1 when there is no \<open>version\<close> at all; minor,
  patch and build stay as they were. The version so resolved is the version of the
  record a decode returns.
\<close>

theorem version_resolution_defaults:
  "(child node ''version'' = Some vn \<longrightarrow> is_object vn \<longrightarrow>
      Get get_uint32 vn ''major'' 2 = Val a \<longrightarrow> Get get_uint32 vn ''minor'' 0 = Val b \<longrightarrow>
      Get get_uint32 vn ''patch'' 0 = Val c \<longrightarrow> Get get_uint32 vn ''build'' 0 = Val d \<longrightarrow>
      ProcessSystemNode_version node si =
        Normal (si\<lparr>si_version := \<lparr>ver_major = a, ver_minor = b, ver_patch = c, ver_build = d\<rparr>\<rparr>))
   \<and> (child vn part = None \<longrightarrow> Get get_uint32 vn part fallback = Val fallback)
   \<and> (child node ''version'' = Some v \<longrightarrow> \<not> is_object v \<longrightarrow> get_uint32 v = Val n \<longrightarrow>
        ProcessSystemNode_version node si = Normal (si\<lparr>si_version := (si_version si)\<lparr>ver_major := n\<rparr>\<rparr>))
   \<and> (child node ''version'' = None \<longrightarrow>
        ProcessSystemNode_version node si = Normal (si\<lparr>si_version := (si_version si)\<lparr>ver_major := 1\<rparr>\<rparr>))
   \<and> (ProcessSystemNode_version node si = Normal s \<longrightarrow>
        ProcessSystemNode ndebug node si = Returned ok s' \<longrightarrow> si_version s' = si_version s)"
proof -
  have 2: "child vn part = None \<longrightarrow> Get get_uint32 vn part fallback = Val fallback"
    by (simp add: Get_def)
  from version_object [of node vn a b c d si] 2 version_scalar [of node v n si]
    version_absent [of node si] ProcessSystemNode_version_of [of node si s ndebug ok s']
  show ?thesis by blast
qed

text \<open>
  At \<open>{"version": {"minor": 3}}\<close>, at the scalar version 2 on a record that held 7.5,
  and at a document with no version.
\<close>

theorem version_resolution_defaults_witness:
  "ProcessSystemNode True (JObject [(''version'', JObject [(''minor'', JUInt 3)])]) zero_SystemInfo
     = Returned True (zero_SystemInfo\<lparr>si_version := \<lparr>ver_major = 2, ver_minor = 3, ver_patch = 0, ver_build = 0\<rparr>\<rparr>)
   \<and> ProcessSystemNode_version (JObject [(''version'', JObject [(''minor'', JUInt 3)])]) zero_SystemInfo
     = Normal (zero_SystemInfo\<lparr>si_version := \<lparr>ver_major = 2, ver_minor = 3, ver_patch = 0, ver_build = 0\<rparr>\<rparr>)
   \<and> ProcessSystemNode_version (JObject [(''version'', JUInt 2)])
        (zero_SystemInfo\<lparr>si_version := \<lparr>ver_major = 7, ver_minor = 5, ver_patch = 0, ver_build = 0\<rparr>\<rparr>)
     = Normal (zero_SystemInfo\<lparr>si_version := \<lparr>ver_major = 2, ver_minor = 5, ver_patch = 0, ver_build = 0\<rparr>\<rparr>)
   \<and> ProcessSystemNode_version (JObject []) zero_SystemInfo
     = Normal (zero_SystemInfo\<lparr>si_version := \<lparr>ver_major = 1, ver_minor = 0, ver_patch = 0, ver_build = 0\<rparr>\<rparr>)"
proof -
  let ?n = "JObject [(''version'', JObject [(''minor'', JUInt 3)])]"
  let ?vn = "JObject [(''minor'', JUInt 3)]"
  let ?r = "zero_SystemInfo\<lparr>si_version := \<lparr>ver_major = 2, ver_minor = 3, ver_patch = 0, ver_build = 0\<rparr>\<rparr>"
  let ?si7 = "zero_SystemInfo\<lparr>si_version := \<lparr>ver_major = 7, ver_minor = 5, ver_patch = 0, ver_build = 0\<rparr>\<rparr>"
  have p: "ProcessSystemNode True ?n zero_SystemInfo = Returned True ?r" by code_simp
  have g: "Get get_uint32 ?vn ''major'' 2 = Val 2" "Get get_uint32 ?vn ''minor'' 0 = Val 3"
    "Get get_uint32 ?vn ''patch'' 0 = Val 0" "Get get_uint32 ?vn ''build'' 0 = Val 0"
    by (simp_all add: Get_def)
  have a: "ProcessSystemNode_version ?n zero_SystemInfo = Normal ?r"
    using version_resolution_defaults [of ?n ?vn 2 3 0 0 zero_SystemInfo] g by simp
  have b: "ProcessSystemNode_version (JObject [(''version'', JUInt 2)]) ?si7
     = Normal (zero_SystemInfo\<lparr>si_version := \<lparr>ver_major = 2, ver_minor = 5, ver_patch = 0, ver_build = 0\<rparr>\<rparr>)"
    using version_resolution_defaults [of "JObject [(''version'', JUInt 2)]" _ _ _ _ _ ?si7 _ _ "JUInt 2" 2]
    by (simp add: zero_SystemInfo_def)
  have c: "ProcessSystemNode_version (JObject []) zero_SystemInfo
     = Normal (zero_SystemInfo\<lparr>si_version := \<lparr>ver_major = 1, ver_minor = 0, ver_patch = 0, ver_build = 0\<rparr>\<rparr>)"
    using version_resolution_defaults [of "JObject []" _ _ _ _ _ zero_SystemInfo]
    by (simp add: zero_SystemInfo_def zero_Version_def)
  from p a b c show ?thesis by blast
qed

text \<open>
  C7. The text-to-text decode returns the empty string when the text does not parse, the
  text itself when the parsed document has no member \<open>system\<close>, and the serialised
  member \<open>system\<close> when there is one. (Should the serialiser throw, the exception is
  swallowed and the empty string returned.)
\<close>

theorem Parse_text_cases:
  "(parse json = None \<longrightarrow> Parse_text parse dump json = '''')
   \<and> (parse json = Some structure \<longrightarrow> \<not> DoesNodeExist structure ''system'' \<longrightarrow>
        Parse_text parse dump json = json)
   \<and> (parse json = Some structure \<longrightarrow> child structure ''system'' = Some system_node \<longrightarrow>
        dump system_node = Inr text \<longrightarrow> Parse_text parse dump json = text)
   \<and> (parse json = Some structure \<longrightarrow> child structure ''system'' = Some system_node \<longrightarrow>
        dump system_node = Inl e \<longrightarrow> Parse_text parse dump json = '''')"
  by (simp add: Parse_text_def DoesNodeExist_def)

text \<open>
  At an enveloped document, at a bare one, at a text that does not parse, and at a
  serialiser that throws.
\<close>

theorem Parse_text_cases_witness:
  \<open>Parse_text [''{"system": {}}'' \<mapsto> JObject [(''system'', JObject [])]] (\<lambda>j. Inr ''{}'') ''{"system": {}}'' = ''{}''
   \<and> Parse_text [''{"cpus": []}'' \<mapsto> JObject [(''cpus'', JArray [])]] (\<lambda>j. Inr ''{}'') ''{"cpus": []}'' = ''{"cpus": []}''
   \<and> Parse_text Map.empty (\<lambda>j. Inr ''{}'') ''{'' = ''''
   \<and> Parse_text [''{"system": {}}'' \<mapsto> JObject [(''system'', JObject [])]] (\<lambda>j. Inl type_error) ''{"system": {}}'' = ''''\<close>
proof -
  have 1: \<open>Parse_text [''{"system": {}}'' \<mapsto> JObject [(''system'', JObject [])]] (\<lambda>j. Inr ''{}'') ''{"system": {}}'' = ''{}''\<close>
    using Parse_text_cases [of \<open>[''{"system": {}}'' \<mapsto> JObject [(''system'', JObject [])]]\<close>
        \<open>''{"system": {}}''\<close> "\<lambda>j. Inr ''{}''" "JObject [(''system'', JObject [])]" "JObject []" "''{}''"]
    by simp
  have 2: \<open>Parse_text [''{"cpus": []}'' \<mapsto> JObject [(''cpus'', JArray [])]] (\<lambda>j. Inr ''{}'') ''{"cpus": []}'' = ''{"cpus": []}''\<close>
    using Parse_text_cases [of \<open>[''{"cpus": []}'' \<mapsto> JObject [(''cpus'', JArray [])]]\<close>
        \<open>''{"cpus": []}''\<close> "\<lambda>j. Inr ''{}''" "JObject [(''cpus'', JArray [])]"]
    by (simp add: DoesNodeExist_def)
  have 3: \<open>Parse_text Map.empty (\<lambda>j. Inr ''{}'') ''{'' = ''''\<close>
    using Parse_text_cases [of Map.empty "''{''" "\<lambda>j. Inr ''{}''"] by simp
  have 4: \<open>Parse_text [''{"system": {}}'' \<mapsto> JObject [(''system'', JObject [])]] (\<lambda>j. Inl type_error) ''{"system": {}}'' = ''''\<close>
    using Parse_text_cases [of \<open>[''{"system": {}}'' \<mapsto> JObject [(''system'', JObject [])]]\<close>
        \<open>''{"system": {}}''\<close> "\<lambda>j. Inl type_error" "JObject [(''system'', JObject [])]" "JObject []" _ type_error]
    by simp
  from 1 2 3 4 show ?thesis by blast
qed

text \<open>
  C8. Reading the chunk of a container: when the chunk is absent the function returns
  false after the presence query alone; when the stored version is above
  \<^verbatim>\<open>kSystemInfoChunkVersionMax\<close> (which is 1) it returns false after the version query,
  without asking for the size or the bytes; in both cases the record is untouched and the
  text parser is not consulted. Otherwise the bytes are read, terminated by a NUL, and
  handed as a C string to the decode of text, whose result is the result. The bytes are
  read exactly when the chunk is present with a version of at most the maximum.
\<close>

theorem chunk_retrieval_guards:
  "(file (kSystemInfoChunkIdentifier, 0) = None \<longrightarrow>
      Parse_rdf ndebug parse file si = (Returned False si, [ContainsChunk]))
   \<and> (file (kSystemInfoChunkIdentifier, 0) = Some chunk \<longrightarrow>
        kSystemInfoChunkVersionMax < chunk_version chunk \<longrightarrow>
        Parse_rdf ndebug parse file si = (Returned False si, [ContainsChunk, GetChunkVersion]))
   \<and> (file (kSystemInfoChunkIdentifier, 0) = Some chunk \<longrightarrow>
        chunk_version chunk \<le> kSystemInfoChunkVersionMax \<longrightarrow>
        Parse_rdf ndebug parse file si =
          (Parse ndebug parse (c_str (chunk_data chunk @ [CHR 0x00])) si,
           [ContainsChunk, GetChunkVersion, GetChunkDataSize, ReadChunkData]))
   \<and> (ReadChunkData \<in> set (snd (Parse_rdf ndebug parse file si))) =
       (\<exists>chunk. file (kSystemInfoChunkIdentifier, 0) = Some chunk
                \<and> chunk_version chunk \<le> kSystemInfoChunkVersionMax)
   \<and> kSystemInfoChunkVersionMax = 1"
  by (auto simp: Parse_rdf_def Let_def kSystemInfoChunkVersionMax_def kSystemInfoChunkVersion_def
        split: option.splits)

text \<open>
  At a container whose chunk has version 2, at an empty container, and at a container
  whose chunk of version 1 holds \<open>{}\<close>.
\<close>

theorem chunk_retrieval_guards_witness:
  "Parse_rdf True Map.empty [(''SystemInfo'', 0) \<mapsto> \<lparr>chunk_version = 2, chunk_data = ''{}''\<rparr>] zero_SystemInfo
     = (Returned False zero_SystemInfo, [ContainsChunk, GetChunkVersion])
   \<and> Parse_rdf True Map.empty Map.empty zero_SystemInfo = (Returned False zero_SystemInfo, [ContainsChunk])
   \<and> Parse_rdf True [''{}'' \<mapsto> JObject []] [(''SystemInfo'', 0) \<mapsto> \<lparr>chunk_version = 1, chunk_data = ''{}''\<rparr>]
        zero_SystemInfo
     = (Parse True [''{}'' \<mapsto> JObject []] ''{}'' zero_SystemInfo,
        [ContainsChunk, GetChunkVersion, GetChunkDataSize, ReadChunkData])"
proof -
  let ?c2 = "\<lparr>chunk_version = 2, chunk_data = ''{}''\<rparr>"
  let ?c1 = "\<lparr>chunk_version = 1, chunk_data = ''{}''\<rparr>"
  have k: "kSystemInfoChunkIdentifier = ''SystemInfo''" "kSystemInfoChunkVersionMax = 1"
    by (simp_all add: kSystemInfoChunkIdentifier_def kSystemInfoChunkVersionMax_def
          kSystemInfoChunkVersion_def)
  have 1: "Parse_rdf True Map.empty [(''SystemInfo'', 0) \<mapsto> ?c2] zero_SystemInfo
     = (Returned False zero_SystemInfo, [ContainsChunk, GetChunkVersion])"
    using chunk_retrieval_guards [of "[(''SystemInfo'', 0) \<mapsto> ?c2]" True Map.empty zero_SystemInfo ?c2] k
    by simp
  have 2: "Parse_rdf True Map.empty Map.empty zero_SystemInfo = (Returned False zero_SystemInfo, [ContainsChunk])"
    using chunk_retrieval_guards [of Map.empty True Map.empty zero_SystemInfo] by simp
  have 3: "Parse_rdf True [''{}'' \<mapsto> JObject []] [(''SystemInfo'', 0) \<mapsto> ?c1] zero_SystemInfo
     = (Parse True [''{}'' \<mapsto> JObject []] ''{}'' zero_SystemInfo,
        [ContainsChunk, GetChunkVersion, GetChunkDataSize, ReadChunkData])"
    using chunk_retrieval_guards [of "[(''SystemInfo'', 0) \<mapsto> ?c1]" True "[''{}'' \<mapsto> JObject []]"
        zero_SystemInfo ?c1] k
    by (simp add: c_str_def)
  from 1 2 3 show ?thesis by blast
qed

text \<open>
  C9, as the code has it. A decode never resets the record it is given. The lists
  \<open>cpus\<close>, \<open>gpus\<close> and \<open>processes\<close> of the record are appended to: after a decode
  they are the entries the record held followed by exactly the entries the same text
  yields on a value-initialised record, and the flag returned is the same; a text that
  does not parse leaves the record untouched. \<open>devdriver\<close>, \<open>driver\<close>, \<open>os\<close>,
  \<open>cpus\<close>, \<open>gpus\<close> and \<open>processes\<close> keep the value they had when the document
  has no such member. The version does not: with no member \<open>version\<close> its major is
  overwritten with 1, while minor, patch and build are kept. The loops over heaps and
  excluded ranges append to the vector they are given. The rows of a well-formed CU mask
  are appended to the matrix, but a violation inside an array clears the matrix, the rows
  it held before included. (In a decode these three nested lists belong to a GPU that
  was value-initialised just before, so they start empty.)
\<close>

theorem decode_appends_and_keeps_absent_members:
  "(Parse ndebug parse json si = Returned ok si' \<longrightarrow>
      (\<exists>d. Parse ndebug parse json zero_SystemInfo = Returned ok d
           \<and> si_cpus si' = si_cpus si @ si_cpus d \<and> si_gpus si' = si_gpus si @ si_gpus d
           \<and> si_processes si' = si_processes si @ si_processes d))
   \<and> (parse json = None \<longrightarrow> Parse ndebug parse json si = Returned False si)
   \<and> (parse json = Some doc \<longrightarrow> Parse ndebug parse json si = Returned ok si' \<longrightarrow>
        (child (system_subtree doc) ''devdriver'' = None \<longrightarrow> si_devdriver si' = si_devdriver si)
        \<and> (child (system_subtree doc) ''driver'' = None \<longrightarrow> si_driver si' = si_driver si)
        \<and> (child (system_subtree doc) ''os'' = None \<longrightarrow> si_os si' = si_os si)
        \<and> (child (system_subtree doc) ''cpus'' = None \<longrightarrow> si_cpus si' = si_cpus si)
        \<and> (child (system_subtree doc) ''gpus'' = None \<longrightarrow> si_gpus si' = si_gpus si)
        \<and> (child (system_subtree doc) ''processes'' = None \<longrightarrow> si_processes si' = si_processes si)
        \<and> (child (system_subtree doc) ''version'' = None \<longrightarrow>
             si_version si' = (si_version si)\<lparr>ver_major := 1\<rparr>))
   \<and> ProcessGpuMemoryHeapsNode n (heaps @ hs) =
       map_outcome (\<lambda>ys. heaps @ ys) (ProcessGpuMemoryHeapsNode n hs)
   \<and> ProcessExcludedVaRanges n (ranges @ rs) =
       map_outcome (\<lambda>ys. ranges @ ys) (ProcessExcludedVaRanges n rs)
   \<and> (\<not> cu_mask_violation n \<longrightarrow>
        ProcessCuMaskNode n a =
          Normal (a\<lparr>asic_cu_mask := asic_cu_mask a @ map (\<lambda>r. map mask_value (elements r)) (elements n)\<rparr>))
   \<and> (cu_mask_violation n \<longrightarrow> is_array n \<longrightarrow> ProcessCuMaskNode n a = Normal (a\<lparr>asic_cu_mask := []\<rparr>))"
proof -
  have 1: "Parse ndebug parse json si = Returned ok si' \<longrightarrow>
      (\<exists>d. Parse ndebug parse json zero_SystemInfo = Returned ok d
           \<and> si_cpus si' = si_cpus si @ si_cpus d \<and> si_gpus si' = si_gpus si @ si_gpus d
           \<and> si_processes si' = si_processes si @ si_processes d)"
    using Parse_appends [of ndebug parse json si ok si'] by blast
  have 2: "parse json = None \<longrightarrow> Parse ndebug parse json si = Returned False si"
    by (simp add: Parse_def)
  have 3: "parse json = Some doc \<longrightarrow> Parse ndebug parse json si = Returned ok si' \<longrightarrow>
        (child (system_subtree doc) ''devdriver'' = None \<longrightarrow> si_devdriver si' = si_devdriver si)
        \<and> (child (system_subtree doc) ''driver'' = None \<longrightarrow> si_driver si' = si_driver si)
        \<and> (child (system_subtree doc) ''os'' = None \<longrightarrow> si_os si' = si_os si)
        \<and> (child (system_subtree doc) ''cpus'' = None \<longrightarrow> si_cpus si' = si_cpus si)
        \<and> (child (system_subtree doc) ''gpus'' = None \<longrightarrow> si_gpus si' = si_gpus si)
        \<and> (child (system_subtree doc) ''processes'' = None \<longrightarrow> si_processes si' = si_processes si)
        \<and> (child (system_subtree doc) ''version'' = None \<longrightarrow>
             si_version si' = (si_version si)\<lparr>ver_major := 1\<rparr>)"
    using Parse_absent_members [of parse json doc ndebug si ok si'] by blast
  have 4: "ProcessGpuMemoryHeapsNode n (heaps @ hs) =
       map_outcome (\<lambda>ys. heaps @ ys) (ProcessGpuMemoryHeapsNode n hs)"
    by (simp add: ProcessGpuMemoryHeapsNode_def push_each_append)
  have 5: "ProcessExcludedVaRanges n (ranges @ rs) =
       map_outcome (\<lambda>ys. ranges @ ys) (ProcessExcludedVaRanges n rs)"
    by (simp add: ProcessExcludedVaRanges_def push_each_append)
  have 6: "\<not> cu_mask_violation n \<longrightarrow>
        ProcessCuMaskNode n a =
          Normal (a\<lparr>asic_cu_mask := asic_cu_mask a @ map (\<lambda>r. map mask_value (elements r)) (elements n)\<rparr>)"
    using CuMaskNode_well_formed by blast
  have 7: "cu_mask_violation n \<longrightarrow> is_array n \<longrightarrow> ProcessCuMaskNode n a = Normal (a\<lparr>asic_cu_mask := []\<rparr>)"
    by (simp add: CuMaskNode_violation)
  from 1 2 3 4 5 6 7 show ?thesis by blast
qed

text \<open>
  At a document with one CPU, decoded into a record that holds a CPU and a driver name.
\<close>

theorem decode_appends_and_keeps_absent_members_witness:
  \<open>Parse True [''{"cpus": [{}]}'' \<mapsto> JObject [(''cpus'', JArray [JObject []])]] ''{"cpus": [{}]}''
      (zero_SystemInfo\<lparr>si_cpus := [zero_CpuInfo\<lparr>cpu_name := ''prior''\<rparr>],
                       si_driver := zero_DriverInfo\<lparr>drv_name := ''kept''\<rparr>\<rparr>)
    = Returned True
        (zero_SystemInfo\<lparr>si_version := zero_Version\<lparr>ver_major := 1\<rparr>,
                         si_cpus := [zero_CpuInfo\<lparr>cpu_name := ''prior''\<rparr>, zero_CpuInfo],
                         si_driver := zero_DriverInfo\<lparr>drv_name := ''kept''\<rparr>\<rparr>)
   \<and> Parse True [''{"cpus": [{}]}'' \<mapsto> JObject [(''cpus'', JArray [JObject []])]] ''{"cpus": [{}]}''
        zero_SystemInfo
      = Returned True (zero_SystemInfo\<lparr>si_version := zero_Version\<lparr>ver_major := 1\<rparr>, si_cpus := [zero_CpuInfo]\<rparr>)
   \<and> [zero_CpuInfo\<lparr>cpu_name := ''prior''\<rparr>, zero_CpuInfo]
        = si_cpus (zero_SystemInfo\<lparr>si_cpus := [zero_CpuInfo\<lparr>cpu_name := ''prior''\<rparr>],
                       si_driver := zero_DriverInfo\<lparr>drv_name := ''kept''\<rparr>\<rparr>) @ [zero_CpuInfo]\<close>
proof -
  let ?parse = \<open>[''{"cpus": [{}]}'' \<mapsto> JObject [(''cpus'', JArray [JObject []])]]\<close>
  let ?json = \<open>''{"cpus": [{}]}''\<close>
  let ?doc = "JObject [(''cpus'', JArray [JObject []])]"
  let ?si = "zero_SystemInfo\<lparr>si_cpus := [zero_CpuInfo\<lparr>cpu_name := ''prior''\<rparr>],
                       si_driver := zero_DriverInfo\<lparr>drv_name := ''kept''\<rparr>\<rparr>"
  let ?si' = "zero_SystemInfo\<lparr>si_version := zero_Version\<lparr>ver_major := 1\<rparr>,
                         si_cpus := [zero_CpuInfo\<lparr>cpu_name := ''prior''\<rparr>, zero_CpuInfo],
                         si_driver := zero_DriverInfo\<lparr>drv_name := ''kept''\<rparr>\<rparr>"
  have a: "Parse True ?parse ?json ?si = Returned True ?si'" by code_simp
  have b: "Parse True ?parse ?json zero_SystemInfo
      = Returned True (zero_SystemInfo\<lparr>si_version := zero_Version\<lparr>ver_major := 1\<rparr>, si_cpus := [zero_CpuInfo]\<rparr>)"
    by code_simp
  from decode_appends_and_keeps_absent_members [of True ?parse ?json ?si True ?si' ?doc] a b
  show ?thesis by simp
qed

text \<open>
  The claim as stated fails: decoding \<open>{}\<close>, which has no version, into a record whose
  major version is 2 leaves the major version 1; and a CU mask with a violation, read
  into a matrix that held a row, leaves the matrix empty, not the row.
\<close>

theorem decode_overwrites_version_and_clears_mask:
  \<open>Parse True [''{}'' \<mapsto> JObject []] ''{}'' (zero_SystemInfo\<lparr>si_version := zero_Version\<lparr>ver_major := 2\<rparr>\<rparr>)
     = Returned True (zero_SystemInfo\<lparr>si_version := zero_Version\<lparr>ver_major := 1\<rparr>\<rparr>)
   \<and> si_version (zero_SystemInfo\<lparr>si_version := zero_Version\<lparr>ver_major := 1\<rparr>\<rparr>)
       \<noteq> si_version (zero_SystemInfo\<lparr>si_version := zero_Version\<lparr>ver_major := 2\<rparr>\<rparr>)
   \<and> ProcessCuMaskNode (JArray [JString ''x'']) (zero_AsicInfo\<lparr>asic_cu_mask := [[7]]\<rparr>)
       = Normal (zero_AsicInfo\<lparr>asic_cu_mask := []\<rparr>)\<close>
  by code_simp

text \<open>
  C10. The loop over the LUID string writes at index \<open>i div 2\<close> for every even \<open>i\<close> below
  the length of the string, into an array of eight bytes. Some write index is 8 or more
  exactly when the string has 17 characters or more, and exactly then the decode leaves
  the array; nothing in the function bounds the length. A decode that returns normally
  had a string of at most 16 characters.
\<close>

theorem luid_write_out_of_bounds_iff:
  "(ProcessAsicIdInfoNode_luid s 0 (replicate 8 0) = None) = (17 \<le> length s)
   \<and> (ProcessAsicIdInfoNode (JObject [(''luid'', JString s)]) info = Undefined) = (17 \<le> length s)
   \<and> (\<exists>i<length s. even i \<and> 8 \<le> i div 2) = (17 \<le> length s)
   \<and> (Get get_string node ''luid'' '''' = Val t \<longrightarrow>
        ProcessAsicIdInfoNode node info = Normal info' \<longrightarrow> length t \<le> 16)"
proof -
  have 2: "(ProcessAsicIdInfoNode (JObject [(''luid'', JString s)]) info = Undefined) = (17 \<le> length s)"
    using luid_loop_None_iff [of s] by (auto simp: AsicIdInfo_only_luid split: option.splits)
  have 3: "(\<exists>i<length s. even i \<and> 8 \<le> i div 2) = (17 \<le> length s)"
  proof
    assume "\<exists>i<length s. even i \<and> 8 \<le> i div 2"
    then show "17 \<le> length s" by auto
  next
    assume "17 \<le> length s"
    then have "16 < length s \<and> even (16::nat) \<and> 8 \<le> (16::nat) div 2" by simp
    then show "\<exists>i<length s. even i \<and> 8 \<le> i div 2" by blast
  qed
  have 4: "Get get_string node ''luid'' '''' = Val t \<longrightarrow>
        ProcessAsicIdInfoNode node info = Normal info' \<longrightarrow> length t \<le> 16"
    using AsicIdInfo_luid_Normal by blast
  from luid_loop_None_iff [of s] 2 3 4 show ?thesis by blast
qed

text \<open>
  At seventeen characters the write is out of bounds; at sixteen it is not.
\<close>

theorem luid_write_out_of_bounds_iff_witness:
  "17 \<le> length ''00000000000000000''
   \<and> ProcessAsicIdInfoNode (JObject [(''luid'', JString ''00000000000000000'')]) zero_IdInfo = Undefined
   \<and> ProcessAsicIdInfoNode (JObject [(''luid'', JString ''0000000000000000'')]) zero_IdInfo \<noteq> Undefined"
  using luid_write_out_of_bounds_iff [of "''00000000000000000''" zero_IdInfo]
    luid_write_out_of_bounds_iff [of "''0000000000000000''" zero_IdInfo]
  by simp

end
